theory Spec2Isabelle
  imports Complex_Main
begin

section \<open>Exceptions, text helpers and configuration\<close>

text \<open>
  The Python exceptions the pipeline raises or lets through. Each carries the text that
  \<open>str(e)\<close> yields. \<open>ValueError\<close> is the validation error of the CSV validator,
  \<open>DatabaseError\<close> stands for \<open>psycopg2.Error\<close> and its subclasses.
\<close>

datatype exc =
    FileNotFoundError string
  | ValueError string
  | DatabaseError string
  | OtherException string

fun str_exc :: "exc \<Rightarrow> string" where
  "str_exc (FileNotFoundError m) = m"
| "str_exc (ValueError m) = m"
| "str_exc (DatabaseError m) = m"
| "str_exc (OtherException m) = m"

text \<open>Decimal rendering of a natural number, as an f-string renders an \<open>int\<close>.\<close>

fun str_nat :: "nat \<Rightarrow> string" where
  "str_nat n =
     (if n < 10 then [''0123456789'' ! n]
      else str_nat (n div 10) @ [''0123456789'' ! (n mod 10)])"

declare str_nat.simps [simp del]

definition squote :: string where
  "squote = [CHR 0x27]"

text \<open>\<open>config_settings.EXPECTED_CSV_COLUMNS\<close>.\<close>

definition EXPECTED_CSV_COLUMNS :: nat where
  "EXPECTED_CSV_COLUMNS = 9"

section \<open>CSV structural validator\<close>

text \<open>
  A CSV file is the list of rows that \<open>csv.reader\<close> yields, each row a list of fields.
  The file system maps a path to the file stored there; \<open>os.path.exists\<close> is
  membership in its domain.
\<close>

type_synonym csv_row = "string list"
type_synonym csv_file = "csv_row list"
type_synonym filesystem = "string \<rightharpoonup> csv_file"

definition validation_msg :: "string \<Rightarrow> nat \<Rightarrow> nat \<Rightarrow> nat \<Rightarrow> string" where
  "validation_msg file_path expected_cols row_no found =
     ''CSV Validation Error (Row '' @ str_nat row_no @ ''): Expected '' @ str_nat expected_cols
       @ '', found '' @ str_nat found @ '' in '' @ squote @ file_path @ squote @ ''.''"

text \<open>
  The loop \<open>for i, row in enumerate(csv_reader)\<close> of \<open>validate_csv_structure\<close>:
  it stops at \<open>i >= 5\<close> and raises at the first row of another length.
\<close>

fun validate_rows :: "string \<Rightarrow> nat \<Rightarrow> nat \<Rightarrow> csv_file \<Rightarrow> exc + unit" where
  "validate_rows file_path expected_cols i [] = Inr ()"
| "validate_rows file_path expected_cols i (row # rest) =
     (if i \<ge> 5 then Inr ()
      else if length row \<noteq> expected_cols
        then Inl (ValueError (validation_msg file_path expected_cols (i + 1) (length row)))
      else validate_rows file_path expected_cols (Suc i) rest)"

definition validate_csv_structure :: "filesystem \<Rightarrow> string \<Rightarrow> exc + bool" where
  "validate_csv_structure fs file_path =
     (case fs file_path of
        None \<Rightarrow> Inl (FileNotFoundError
                  (''CSV Validation Error: File '' @ squote @ file_path @ squote @ '' not found.''))
      | Some rows \<Rightarrow>
          (case validate_rows file_path EXPECTED_CSV_COLUMNS 0 rows of
             Inl e \<Rightarrow> Inl e
           | Inr _ \<Rightarrow> Inr True))"

section \<open>The warehouse: values, statements and the PostgreSQL builtins\<close>

text \<open>
  Column values. A \<open>TIMESTAMP WITH TIME ZONE\<close> is an instant, counted in microseconds
  from the epoch; a \<open>NUMERIC(18,8)\<close> is counted in units of \<open>10\<^sup>-\<^sup>8\<close>; a \<open>FLOAT8\<close> is
  carried as the rational it denotes (the pipeline never computes with it). SQL \<open>NULL\<close>
  is \<open>None\<close>.
\<close>

type_synonym timestamptz = int
type_synonym numeric = int
type_synonym float8 = rat

text \<open>A row of the staging table: the columns of \<open>CREATE TEMP TABLE\<close> in \<open>load_telco_data\<close>.\<close>

record staged_row =
  customer_id :: "int option"
  event_start_time :: "timestamptz option"
  event_type :: "string option"
  rate_plan_id :: "int option"
  billing_flag_one :: "int option"
  billing_flag_two :: "int option"
  duration :: "float8 option"
  charge :: "numeric option"
  month :: "string option"

text \<open>
  A row of \<open>telco_billings_usage\<close> (\<open>SQL_CREATE_MAIN_TABLE\<close>): the staged columns and
  the primary key \<open>event_uuid\<close>, which is never \<open>NULL\<close>.
\<close>

record usage_row = staged_row +
  event_uuid :: string

text \<open>The SQL statements the pipeline sends, one constructor per statement text.\<close>

datatype stmt =
    CreateMainTable
  | CreateUuidFunction
  | CreateIndexIfNotExists string string
  | CreateIndex string string
  | SelectPgClass string
  | DropIndexIfExists string
  | CreateTempTable string
  | CopyFrom string "csv_row list"
  | SelectCount string
  | InsertFromStaging string
  | CheckMissingValues
  | CheckFutureDates
  | CreateUsageDistributionView
  | CreateMonthlyTrendsView
  | DeleteOldData int

text \<open>
  What the pipeline uses of PostgreSQL without defining it: the digest \<open>MD5\<close>, the casts
  to \<open>TEXT\<close>, the input conversions \<open>COPY\<close> applies to a field (\<open>None\<close>: the text is not
  valid for the column type), interval arithmetic on instants, what \<open>COPY\<close> reads from a
  line that \<open>csv.writer\<close> had to quote, and \<open>fault\<close>, the statements that fail for a reason
  outside this model (a lost connection, a lock timeout, a missing privilege). They are
  parameters of the model.
\<close>

record pg =
  md5 :: "string \<Rightarrow> string"
  int4_text :: "int \<Rightarrow> string"
  timestamptz_text :: "timestamptz \<Rightarrow> string"
  numeric_text :: "numeric \<Rightarrow> string"
  int4_in :: "string \<Rightarrow> int option"
  timestamptz_in :: "string \<Rightarrow> timestamptz option"
  varchar_in :: "nat \<Rightarrow> string \<Rightarrow> string option"
  float8_in :: "string \<Rightarrow> float8 option"
  numeric_in :: "string \<Rightarrow> numeric option"
  copy_quoted_row :: "csv_row \<Rightarrow> staged_row option"
  minus_one_day :: "timestamptz \<Rightarrow> timestamptz"
  minus_months :: "timestamptz \<Rightarrow> int \<Rightarrow> timestamptz"
  fault :: "stmt \<Rightarrow> exc option"

subsection \<open>The identity function\<close>

definition coalesce_text :: "string option \<Rightarrow> string" where
  "coalesce_text v = (case v of None \<Rightarrow> [] | Some t \<Rightarrow> t)"

text \<open>The body of \<open>generate_event_uuid\<close> (\<open>SQL_GENERATE_UUID_FUNCTION\<close>).\<close>

definition generate_event_uuid_body ::
  "pg \<Rightarrow> int option \<Rightarrow> timestamptz option \<Rightarrow> string option \<Rightarrow> int option \<Rightarrow> numeric option
   \<Rightarrow> string" where
  "generate_event_uuid_body P p_customer_id p_event_time p_event_type p_rate_plan_id p_charge =
     md5 P (coalesce_text (map_option (int4_text P) p_customer_id) @ ''_'' @
            coalesce_text (map_option (timestamptz_text P) p_event_time) @ ''_'' @
            coalesce_text p_event_type @ ''_'' @
            coalesce_text (map_option (int4_text P) p_rate_plan_id) @ ''_'' @
            coalesce_text (map_option (numeric_text P) p_charge))"

text \<open>
  The function is declared \<open>LANGUAGE plpgsql IMMUTABLE STRICT\<close>: PostgreSQL does not run
  the body of a \<open>STRICT\<close> function when an argument is \<open>NULL\<close>, the result is \<open>NULL\<close>.
\<close>

definition generate_event_uuid ::
  "pg \<Rightarrow> int option \<Rightarrow> timestamptz option \<Rightarrow> string option \<Rightarrow> int option \<Rightarrow> numeric option
   \<Rightarrow> string option" where
  "generate_event_uuid P p_customer_id p_event_time p_event_type p_rate_plan_id p_charge =
     (if p_customer_id = None \<or> p_event_time = None \<or> p_event_type = None
         \<or> p_rate_plan_id = None \<or> p_charge = None
      then None
      else Some (generate_event_uuid_body P p_customer_id p_event_time p_event_type
                   p_rate_plan_id p_charge))"

definition row_uuid :: "pg \<Rightarrow> 'a staged_row_scheme \<Rightarrow> string option" where
  "row_uuid P s =
     generate_event_uuid P (customer_id s) (event_start_time s) (event_type s)
       (rate_plan_id s) (charge s)"

subsection \<open>Database state and the meaning of the statements\<close>

text \<open>
  The part of a database the pipeline reads and writes: whether \<open>telco_billings_usage\<close>
  exists and its rows, whether \<open>generate_event_uuid\<close> is defined, the secondary indexes
  of the table (name to indexed column), the views, and the temporary tables of the
  session (all created \<open>ON COMMIT DROP\<close>).
\<close>

record db =
  table_exists :: bool
  usage :: "usage_row list"
  uuid_function :: bool
  indexes :: "string \<rightharpoonup> string"
  views :: "string set"
  temp_tables :: "string \<rightharpoonup> staged_row list"

text \<open>What a cursor holds after \<open>execute\<close>: \<open>rowcount\<close> and the row \<open>fetchone\<close> returns.\<close>

record sql_result =
  rowcount :: "int option"
  fetchone :: "int option list option"

definition no_rows :: sql_result where
  "no_rows = \<lparr>rowcount = Some (-1), fetchone = None\<rparr>"

definition affected :: "nat \<Rightarrow> sql_result" where
  "affected n = \<lparr>rowcount = Some (int n), fetchone = None\<rparr>"

definition one_row :: "int option list \<Rightarrow> sql_result" where
  "one_row r = \<lparr>rowcount = Some 1, fetchone = Some r\<rparr>"

text \<open>The relations of schema \<open>public\<close> that the query on \<open>pg_class\<close> can find.\<close>

definition relation_exists :: "db \<Rightarrow> string \<Rightarrow> bool" where
  "relation_exists d name \<longleftrightarrow>
     name \<in> dom (indexes d) \<or> (table_exists d \<and> name = ''telco_billings_usage'')
     \<or> name \<in> views d"

text \<open>
  \<open>COPY ... FROM STDIN\<close> in text format with \<open>sep=','\<close> and \<open>null=''\<close>. A field without
  comma, double quote, backslash, carriage return or line feed is written by \<open>csv.writer\<close>
  as it is and read back by \<open>COPY\<close> as it is: the empty field is \<open>NULL\<close>, any other goes
  through the input conversion of its column. A row with another field is read as
  \<open>copy_quoted_row\<close> says. \<open>None\<close>: \<open>COPY\<close> raises.
\<close>

definition plain_field :: "string \<Rightarrow> bool" where
  "plain_field f \<longleftrightarrow>
     (\<forall>ch \<in> set f. ch \<notin> {CHR '','', CHR 0x22, CHR 0x5C, CHR 0x0A, CHR 0x0D})"

definition copy_column :: "(string \<Rightarrow> 'a option) \<Rightarrow> string \<Rightarrow> 'a option option" where
  "copy_column column_in f = (if f = [] then Some None else map_option Some (column_in f))"

definition copy_plain_row :: "pg \<Rightarrow> csv_row \<Rightarrow> staged_row option" where
  "copy_plain_row P r =
     (case r of
        [f1, f2, f3, f4, f5, f6, f7, f8, f9] \<Rightarrow>
          Option.bind (copy_column (int4_in P) f1) (\<lambda>v1.
          Option.bind (copy_column (timestamptz_in P) f2) (\<lambda>v2.
          Option.bind (copy_column (varchar_in P 50) f3) (\<lambda>v3.
          Option.bind (copy_column (int4_in P) f4) (\<lambda>v4.
          Option.bind (copy_column (int4_in P) f5) (\<lambda>v5.
          Option.bind (copy_column (int4_in P) f6) (\<lambda>v6.
          Option.bind (copy_column (float8_in P) f7) (\<lambda>v7.
          Option.bind (copy_column (numeric_in P) f8) (\<lambda>v8.
          Option.bind (copy_column (varchar_in P 7) f9) (\<lambda>v9.
            Some \<lparr>customer_id = v1, event_start_time = v2, event_type = v3,
                  rate_plan_id = v4, billing_flag_one = v5, billing_flag_two = v6,
                  duration = v7, charge = v8, month = v9\<rparr>)))))))))
      | _ \<Rightarrow> None)"

definition copy_row :: "pg \<Rightarrow> csv_row \<Rightarrow> staged_row option" where
  "copy_row P r = (if list_all plain_field r then copy_plain_row P r else copy_quoted_row P r)"

fun copy_rows :: "pg \<Rightarrow> csv_row list \<Rightarrow> staged_row list option" where
  "copy_rows P [] = Some []"
| "copy_rows P (r # rs) =
     (case copy_row P r of
        None \<Rightarrow> None
      | Some s \<Rightarrow> (case copy_rows P rs of None \<Rightarrow> None | Some ss \<Rightarrow> Some (s # ss)))"

text \<open>
  \<open>INSERT INTO telco_billings_usage (...) SELECT s.*, generate_event_uuid(...) FROM
  staging s ON CONFLICT (event_uuid) DO NOTHING\<close>, the staged rows taken in the order
  they were copied. A \<open>NULL\<close> identity violates the primary key and fails the statement;
  a row whose identity is in the table already is skipped; the count is \<open>cursor.rowcount\<close>.
\<close>

definition with_uuid :: "staged_row \<Rightarrow> string \<Rightarrow> usage_row" where
  "with_uuid s u =
     \<lparr>customer_id = customer_id s, event_start_time = event_start_time s,
      event_type = event_type s, rate_plan_id = rate_plan_id s,
      billing_flag_one = billing_flag_one s, billing_flag_two = billing_flag_two s,
      duration = duration s, charge = charge s, month = month s, event_uuid = u\<rparr>"

fun insert_on_conflict_do_nothing ::
  "pg \<Rightarrow> staged_row list \<Rightarrow> usage_row list \<Rightarrow> nat \<Rightarrow> exc + (usage_row list \<times> nat)" where
  "insert_on_conflict_do_nothing P [] tbl n = Inr (tbl, n)"
| "insert_on_conflict_do_nothing P (s # ss) tbl n =
     (case row_uuid P s of
        None \<Rightarrow> Inl (DatabaseError ''null value in column event_uuid violates not-null constraint'')
      | Some u \<Rightarrow>
          (if u \<in> event_uuid ` set tbl then insert_on_conflict_do_nothing P ss tbl n
           else insert_on_conflict_do_nothing P ss (tbl @ [with_uuid s u]) (Suc n)))"

text \<open>The aggregates of \<open>SQL_CHECK_MISSING_VALUES\<close>: \<open>SUM\<close> over no row is \<open>NULL\<close>.\<close>

definition sum_case_null :: "('r \<Rightarrow> 'v option) \<Rightarrow> 'r list \<Rightarrow> int option" where
  "sum_case_null col rs =
     (if rs = [] then None else Some (int (length (filter (\<lambda>r. col r = None) rs))))"

text \<open>
  A comparison with \<open>NULL\<close> is not true, so a \<open>WHERE\<close> clause on \<open>event_start_time\<close>
  selects no row whose \<open>event_start_time\<close> is \<open>NULL\<close>.
\<close>

definition where_time :: "(timestamptz \<Rightarrow> bool) \<Rightarrow> usage_row \<Rightarrow> bool" where
  "where_time cond r = (case event_start_time r of None \<Rightarrow> False | Some t \<Rightarrow> cond t)"

definition undefined_table :: exc where
  "undefined_table = DatabaseError ''relation telco_billings_usage does not exist''"

definition analytics_usage_distribution :: string where
  "analytics_usage_distribution = ''analytics_usage_distribution''"

definition analytics_monthly_trends :: string where
  "analytics_monthly_trends = ''analytics_monthly_trends''"

text \<open>
  The meaning of one statement on a database state, at the value \<open>now\<close> of
  \<open>CURRENT_TIMESTAMP\<close>: the error PostgreSQL raises, or the new state and the result.
\<close>

fun sql_exec :: "pg \<Rightarrow> timestamptz \<Rightarrow> stmt \<Rightarrow> db \<Rightarrow> exc + (db \<times> sql_result)" where
  "sql_exec P now CreateMainTable d =
     (if table_exists d then Inr (d, no_rows)
      else Inr (d\<lparr>table_exists := True, usage := []\<rparr>, no_rows))"
| "sql_exec P now CreateUuidFunction d = Inr (d\<lparr>uuid_function := True\<rparr>, no_rows)"
| "sql_exec P now (CreateIndexIfNotExists name col) d =
     (if \<not> table_exists d then Inl undefined_table
      else if relation_exists d name then Inr (d, no_rows)
      else Inr (d\<lparr>indexes := (indexes d)(name \<mapsto> col)\<rparr>, no_rows))"
| "sql_exec P now (CreateIndex name col) d =
     (if \<not> table_exists d then Inl undefined_table
      else if relation_exists d name
        then Inl (DatabaseError (''relation '' @ name @ '' already exists''))
      else Inr (d\<lparr>indexes := (indexes d)(name \<mapsto> col)\<rparr>, no_rows))"
| "sql_exec P now (SelectPgClass name) d =
     (if relation_exists d name then Inr (d, one_row [Some 1])
      else Inr (d, \<lparr>rowcount = Some 0, fetchone = None\<rparr>))"
| "sql_exec P now (DropIndexIfExists name) d =
     (if name \<in> dom (indexes d) then Inr (d\<lparr>indexes := (indexes d)(name := None)\<rparr>, no_rows)
      else if relation_exists d name then Inl (DatabaseError (name @ '' is not an index''))
      else Inr (d, no_rows))"
| "sql_exec P now (CreateTempTable name) d =
     (if name \<in> dom (temp_tables d)
        then Inl (DatabaseError (''relation '' @ name @ '' already exists''))
      else Inr (d\<lparr>temp_tables := (temp_tables d)(name \<mapsto> [])\<rparr>, no_rows))"
| "sql_exec P now (CopyFrom name rows) d =
     (case temp_tables d name of
        None \<Rightarrow> Inl (DatabaseError (''relation '' @ name @ '' does not exist''))
      | Some staged \<Rightarrow>
          (case copy_rows P rows of
             None \<Rightarrow> Inl (DatabaseError ''COPY: invalid input'')
           | Some new \<Rightarrow>
               Inr (d\<lparr>temp_tables := (temp_tables d)(name \<mapsto> staged @ new)\<rparr>,
                    affected (length new))))"
| "sql_exec P now (SelectCount name) d =
     (case temp_tables d name of
        None \<Rightarrow> Inl (DatabaseError (''relation '' @ name @ '' does not exist''))
      | Some staged \<Rightarrow> Inr (d, one_row [Some (int (length staged))]))"
| "sql_exec P now (InsertFromStaging name) d =
     (if \<not> table_exists d then Inl undefined_table
      else case temp_tables d name of
        None \<Rightarrow> Inl (DatabaseError (''relation '' @ name @ '' does not exist''))
      | Some staged \<Rightarrow>
          (if \<not> uuid_function d
             then Inl (DatabaseError ''function generate_event_uuid does not exist'')
           else case insert_on_conflict_do_nothing P staged (usage d) 0 of
             Inl e \<Rightarrow> Inl e
           | Inr (tbl, n) \<Rightarrow> Inr (d\<lparr>usage := tbl\<rparr>, affected n)))"
| "sql_exec P now CheckMissingValues d =
     (if \<not> table_exists d then Inl undefined_table
      else let recent = filter (where_time (\<lambda>t. t \<ge> minus_one_day P now \<and> t < now)) (usage d)
           in Inr (d, one_row [sum_case_null customer_id recent,
                               sum_case_null event_start_time recent,
                               sum_case_null event_type recent,
                               Some (int (length recent))]))"
| "sql_exec P now CheckFutureDates d =
     (if \<not> table_exists d then Inl undefined_table
      else Inr (d, one_row [Some (int (length (filter (where_time (\<lambda>t. t > now)) (usage d))))]))"
| "sql_exec P now CreateUsageDistributionView d =
     (if \<not> table_exists d then Inl undefined_table
      else Inr (d\<lparr>views := insert analytics_usage_distribution (views d)\<rparr>, no_rows))"
| "sql_exec P now CreateMonthlyTrendsView d =
     (if \<not> table_exists d then Inl undefined_table
      else Inr (d\<lparr>views := insert analytics_monthly_trends (views d)\<rparr>, no_rows))"
| "sql_exec P now (DeleteOldData months) d =
     (if \<not> table_exists d then Inl undefined_table
      else let old = where_time (\<lambda>t. t < minus_months P now months)
           in Inr (d\<lparr>usage := filter (\<lambda>r. \<not> old r) (usage d)\<rparr>,
                   affected (length (filter old (usage d)))))"

subsection \<open>Connections and transactions\<close>

text \<open>
  A psycopg2 connection with \<open>autocommit = False\<close>: the committed state of the database,
  the state the open transaction sees, whether the transaction is in the aborted state
  (a statement failed in it), and the statements that ran on the connection.
\<close>

record conn =
  committed :: db
  working :: db
  aborted :: bool
  executed :: "stmt list"

definition drop_temp :: "db \<Rightarrow> db" where
  "drop_temp d = d\<lparr>temp_tables := Map.empty\<rparr>"

definition rollback :: "conn \<Rightarrow> conn" where
  "rollback c = c\<lparr>working := committed c, aborted := False\<rparr>"

definition commit :: "conn \<Rightarrow> conn" where
  "commit c =
     (if aborted c then rollback c
      else c\<lparr>committed := drop_temp (working c), working := drop_temp (working c)\<rparr>)"

text \<open>
  \<open>cursor.execute(sql)\<close>: the statement takes effect in the open transaction, or it
  raises and leaves the transaction aborted. Either way the connection goes on existing,
  so the state is returned with the outcome.
\<close>

definition execute :: "pg \<Rightarrow> timestamptz \<Rightarrow> stmt \<Rightarrow> conn \<Rightarrow> conn \<times> (exc + sql_result)" where
  "execute P now s c =
     (let c' = c\<lparr>executed := executed c @ [s]\<rparr> in
      if aborted c
        then (c', Inl (DatabaseError ''current transaction is aborted, commands ignored until end of transaction block''))
      else case fault P s of
        Some e \<Rightarrow> (c'\<lparr>aborted := True\<rparr>, Inl e)
      | None \<Rightarrow>
          (case sql_exec P now s (working c) of
             Inl e \<Rightarrow> (c'\<lparr>aborted := True\<rparr>, Inl e)
           | Inr (d, r) \<Rightarrow> (c'\<lparr>working := d\<rparr>, Inr r)))"

text \<open>A loop of \<open>log_and_run_sql\<close> calls over a list of statements.\<close>

fun execute_all :: "pg \<Rightarrow> timestamptz \<Rightarrow> stmt list \<Rightarrow> conn \<Rightarrow> conn \<times> (exc + unit)" where
  "execute_all P now [] c = (c, Inr ())"
| "execute_all P now (s # ss) c =
     (case execute P now s c of
        (c', Inl e) \<Rightarrow> (c', Inl e)
      | (c', Inr _) \<Rightarrow> execute_all P now ss c')"

section \<open>The pipeline\<close>

text \<open>\<open>sql_queries.NON_PK_INDEXES_TO_CREATE\<close> and \<open>NON_PK_INDEXES_TO_RECREATE\<close>, in dictionary order.\<close>

definition NON_PK_INDEXES_TO_CREATE :: "(string \<times> stmt) list" where
  "NON_PK_INDEXES_TO_CREATE =
     [(''idx_billing_customer_id'', CreateIndexIfNotExists ''idx_billing_customer_id'' ''customer_id''),
      (''idx_billing_event_time'', CreateIndexIfNotExists ''idx_billing_event_time'' ''event_start_time''),
      (''idx_billing_event_type'', CreateIndexIfNotExists ''idx_billing_event_type'' ''event_type''),
      (''idx_billing_month'', CreateIndexIfNotExists ''idx_billing_month'' ''month'')]"

definition NON_PK_INDEXES_TO_RECREATE :: "(string \<times> stmt) list" where
  "NON_PK_INDEXES_TO_RECREATE =
     [(''idx_billing_customer_id'', CreateIndex ''idx_billing_customer_id'' ''customer_id''),
      (''idx_billing_event_time'', CreateIndex ''idx_billing_event_time'' ''event_start_time''),
      (''idx_billing_event_type'', CreateIndex ''idx_billing_event_type'' ''event_type''),
      (''idx_billing_month'', CreateIndex ''idx_billing_month'' ''month'')]"

subsection \<open>\<open>setup_pipeline_db_structure\<close>\<close>

definition setup_pipeline_db_structure :: "pg \<Rightarrow> timestamptz \<Rightarrow> conn \<Rightarrow> conn \<times> (exc + unit)" where
  "setup_pipeline_db_structure P now c =
     (case execute_all P now
             ([CreateMainTable, CreateUuidFunction] @ map snd NON_PK_INDEXES_TO_CREATE) c of
        (c', Inl e) \<Rightarrow> (rollback c', Inl e)
      | (c', Inr _) \<Rightarrow> (commit c', Inr ()))"

subsection \<open>\<open>load_telco_data\<close>\<close>

definition skip_msg :: "string \<Rightarrow> nat \<Rightarrow> string" where
  "skip_msg file_path row_no =
     ''Skipping malformed row '' @ str_nat row_no @ '' in '' @ squote @ file_path @ squote @ ''.''"

text \<open>
  The loop over \<open>csv_reader\<close>: the rows written to the in-memory buffer, and the
  warnings logged for the rows skipped.
\<close>

fun stage_csv_rows :: "string \<Rightarrow> nat \<Rightarrow> csv_file \<Rightarrow> csv_row list \<times> string list" where
  "stage_csv_rows file_path i [] = ([], [])"
| "stage_csv_rows file_path i (row_parts # rest) =
     (case stage_csv_rows file_path (Suc i) rest of
        (buffer, warnings) \<Rightarrow>
          if length row_parts \<noteq> EXPECTED_CSV_COLUMNS
          then (buffer, skip_msg file_path (i + 1) # warnings)
          else (row_parts # buffer, warnings))"

text \<open>Python's truth value of what \<open>fetchone\<close> returned: \<open>None\<close> and the empty tuple are false.\<close>

fun truthy :: "int option list option \<Rightarrow> bool" where
  "truthy None = False"
| "truthy (Some []) = False"
| "truthy (Some (v # vs)) = True"

text \<open>The loop that drops the secondary indexes found in \<open>pg_class\<close>.\<close>

fun drop_existing_indexes :: "pg \<Rightarrow> timestamptz \<Rightarrow> string list \<Rightarrow> conn \<Rightarrow> conn \<times> (exc + unit)" where
  "drop_existing_indexes P now [] c = (c, Inr ())"
| "drop_existing_indexes P now (index_name # rest) c =
     (case execute P now (SelectPgClass index_name) c of
        (c1, Inl e) \<Rightarrow> (c1, Inl e)
      | (c1, Inr r) \<Rightarrow>
          if truthy (fetchone r)
          then (case execute P now (DropIndexIfExists index_name) c1 of
                  (c2, Inl e) \<Rightarrow> (c2, Inl e)
                | (c2, Inr _) \<Rightarrow> drop_existing_indexes P now rest c2)
          else drop_existing_indexes P now rest c1)"

text \<open>
  The statements after the short-circuit on an empty buffer: copy to staging, count, drop
  the indexes, merge, recreate the indexes. The result is \<open>inserted_count\<close>.
\<close>

definition load_staged ::
  "pg \<Rightarrow> timestamptz \<Rightarrow> string \<Rightarrow> csv_row list \<Rightarrow> conn \<Rightarrow> conn \<times> (exc + int)" where
  "load_staged P now staging_table_name buffer c =
     (case execute P now (CopyFrom staging_table_name buffer) c of
        (c1, Inl e) \<Rightarrow> (c1, Inl e)
      | (c1, Inr _) \<Rightarrow>
     (case execute P now (SelectCount staging_table_name) c1 of
        (c2, Inl e) \<Rightarrow> (c2, Inl e)
      | (c2, Inr _) \<Rightarrow>
     (case drop_existing_indexes P now (map fst NON_PK_INDEXES_TO_CREATE) c2 of
        (c3, Inl e) \<Rightarrow> (c3, Inl e)
      | (c3, Inr _) \<Rightarrow>
     (case execute P now (InsertFromStaging staging_table_name) c3 of
        (c4, Inl e) \<Rightarrow> (c4, Inl e)
      | (c4, Inr r) \<Rightarrow>
          (let inserted_count = (case rowcount r of Some n \<Rightarrow> n | None \<Rightarrow> -1) in
           case execute_all P now (map snd NON_PK_INDEXES_TO_RECREATE) c4 of
             (c5, Inl e) \<Rightarrow> (c5, Inl e)
           | (c5, Inr _) \<Rightarrow> (c5, Inr inserted_count))))))"

text \<open>
  \<open>load_telco_data\<close>: the connection afterwards, the warnings logged, and the exception
  raised or the count returned. \<open>staging_table_name\<close> is the name built from the clock.
\<close>

definition load_telco_data ::
  "pg \<Rightarrow> timestamptz \<Rightarrow> filesystem \<Rightarrow> string \<Rightarrow> string \<Rightarrow> conn
   \<Rightarrow> conn \<times> string list \<times> (exc + int)" where
  "load_telco_data P now fs file_path staging_table_name c =
     (case execute P now (CreateTempTable staging_table_name) c of
        (c1, Inl e) \<Rightarrow> (rollback c1, [], Inl e)
      | (c1, Inr _) \<Rightarrow>
          (case fs file_path of
             None \<Rightarrow>
               (rollback c1, [],
                Inl (FileNotFoundError
                  (''[Errno 2] No such file or directory: '' @ squote @ file_path @ squote)))
           | Some rows \<Rightarrow>
               (case stage_csv_rows file_path 0 rows of
                  (buffer, warnings) \<Rightarrow>
                    if length buffer = 0 then (c1, warnings, Inr 0)
                    else (case load_staged P now staging_table_name buffer c1 of
                            (c2, Inl e) \<Rightarrow> (rollback c2, warnings, Inl e)
                          | (c2, Inr inserted_count) \<Rightarrow>
                              (commit c2, warnings, Inr inserted_count)))))"

subsection \<open>\<open>run_data_quality_checks\<close>\<close>

definition str_int :: "int \<Rightarrow> string" where
  "str_int i = (if i < 0 then ''-'' @ str_nat (nat (- i)) else str_nat (nat i))"

definition or_zero :: "int option \<Rightarrow> int" where
  "or_zero v = (case v of None \<Rightarrow> 0 | Some n \<Rightarrow> n)"

definition missing_values_issue :: "int \<Rightarrow> int \<Rightarrow> int \<Rightarrow> int \<Rightarrow> string" where
  "missing_values_issue m_cid m_time m_etype total_chk =
     ''Missing values (cust/time/type): '' @ str_int m_cid @ ''/'' @ str_int m_time @ ''/''
       @ str_int m_etype @ '' in '' @ str_int total_chk @ '' recent rows.''"

definition future_dates_issue :: "int \<Rightarrow> string" where
  "future_dates_issue future_count = ''Future-dated events: '' @ str_int future_count @ ''.''"

text \<open>
  The missing-values check on what \<open>fetchone\<close> returned: the issues it appends, or the
  \<open>ValueError\<close> of unpacking a row that has not four values.
\<close>

definition check_missing :: "int option list option \<Rightarrow> exc + string list" where
  "check_missing res_missing =
     (if truthy res_missing then
        (case map or_zero (the res_missing) of
           [m_cid, m_time, m_etype, total_chk] \<Rightarrow>
             if total_chk > 0 \<and> (m_cid > 0 \<or> m_time > 0 \<or> m_etype > 0)
             then Inr [missing_values_issue m_cid m_time m_etype total_chk]
             else Inr []
         | vs \<Rightarrow>
             if length vs < 4
             then Inl (ValueError (''not enough values to unpack (expected 4, got ''
                                    @ str_nat (length vs) @ '')''))
             else Inl (ValueError ''too many values to unpack (expected 4)''))
      else Inr [])"

definition check_future :: "int option list option \<Rightarrow> string list" where
  "check_future res_future =
     (if truthy res_future then
        (let future_count = or_zero (hd (the res_future)) in
         if future_count > 0 then [future_dates_issue future_count] else [])
      else [])"

text \<open>
  The \<open>try\<close> block of \<open>run_data_quality_checks\<close>, for any cursor: \<open>ex\<close> is what
  \<open>cursor.execute\<close> followed by \<open>cursor.fetchone\<close> does on a connection of type \<open>'c\<close>.
  \<open>quality_good\<close> is false exactly when an issue was appended.
\<close>

definition dq_try ::
  "(stmt \<Rightarrow> 'c \<Rightarrow> 'c \<times> (exc + sql_result)) \<Rightarrow> 'c \<Rightarrow> 'c \<times> (exc + (bool \<times> string list))" where
  "dq_try ex c =
     (case ex CheckMissingValues c of
        (c1, Inl e) \<Rightarrow> (c1, Inl e)
      | (c1, Inr r1) \<Rightarrow>
          (case check_missing (fetchone r1) of
             Inl e \<Rightarrow> (c1, Inl e)
           | Inr issues1 \<Rightarrow>
               (case ex CheckFutureDates c1 of
                  (c2, Inl e) \<Rightarrow> (c2, Inl e)
                | (c2, Inr r2) \<Rightarrow>
                    (let issues = issues1 @ check_future (fetchone r2)
                     in (c2, Inr (issues = [], issues))))))"

definition run_data_quality_checks_on ::
  "(stmt \<Rightarrow> 'c \<Rightarrow> 'c \<times> (exc + sql_result)) \<Rightarrow> 'c \<Rightarrow> 'c \<times> bool \<times> string list" where
  "run_data_quality_checks_on ex c =
     (case dq_try ex c of
        (c', Inl e) \<Rightarrow> (c', False, [''DQ Exception: '' @ str_exc e])
      | (c', Inr r) \<Rightarrow> (c', r))"

definition run_data_quality_checks :: "pg \<Rightarrow> timestamptz \<Rightarrow> conn \<Rightarrow> conn \<times> bool \<times> string list" where
  "run_data_quality_checks P now c = run_data_quality_checks_on (execute P now) c"

subsection \<open>\<open>create_pipeline_analytics_views\<close> and \<open>apply_pipeline_data_retention\<close>\<close>

definition create_pipeline_analytics_views ::
  "pg \<Rightarrow> timestamptz \<Rightarrow> conn \<Rightarrow> conn \<times> (exc + unit)" where
  "create_pipeline_analytics_views P now c =
     (case execute_all P now [CreateUsageDistributionView, CreateMonthlyTrendsView] c of
        (c', Inl e) \<Rightarrow> (rollback c', Inl e)
      | (c', Inr _) \<Rightarrow> (commit c', Inr ()))"

text \<open>\<open>config_settings.ENABLE_RETENTION_POLICY\<close> and \<open>RETENTION_PERIOD_MONTHS\<close>, read from the environment.\<close>

record config =
  ENABLE_RETENTION_POLICY :: bool
  RETENTION_PERIOD_MONTHS :: int

definition apply_pipeline_data_retention ::
  "pg \<Rightarrow> timestamptz \<Rightarrow> config \<Rightarrow> conn \<Rightarrow> conn \<times> (exc + unit)" where
  "apply_pipeline_data_retention P now cfg c =
     (if \<not> ENABLE_RETENTION_POLICY cfg then (c, Inr ())
      else case execute P now (DeleteOldData (RETENTION_PERIOD_MONTHS cfg)) c of
        (c', Inl e) \<Rightarrow> (rollback c', Inl e)
      | (c', Inr _) \<Rightarrow> (commit c', Inr ()))"

definition sample_row :: csv_row where
  "sample_row = [''1'', ''2024-01-01 00:00:00+00'', ''call'', ''5'', ''0'', ''1'', ''2.5'',
                 ''1.5'', ''2024-01'']"

definition short_row :: csv_row where
  "short_row = [''2'', ''2024-01-01 00:05:00+00'', ''sms'', ''5'', ''0'', ''1'', ''0'', ''0.1'']"

text \<open>The name and the indexed column of each secondary index of the two dictionaries.\<close>

definition index_columns :: "(string \<times> string) list" where
  "index_columns =
     [(''idx_billing_customer_id'', ''customer_id''),
      (''idx_billing_event_time'', ''event_start_time''),
      (''idx_billing_event_type'', ''event_type''),
      (''idx_billing_month'', ''month'')]"

section \<open>Sample data\<close>

text \<open>A row is older than a cutoff when it has an event time and that time is before the cutoff.\<close>

definition older_than :: "timestamptz \<Rightarrow> usage_row \<Rightarrow> bool" where
  "older_than cutoff r \<longleftrightarrow> (\<exists>t. event_start_time r = Some t \<and> t < cutoff)"

text \<open>A stored row one microsecond older than 2024-01-01 00:00:00 UTC.\<close>

definition expired_row :: usage_row where
  "expired_row =
     \<lparr>customer_id = Some 3, event_start_time = Some 1704067199999999, event_type = Some ''data'',
      rate_plan_id = Some 7, billing_flag_one = Some 0, billing_flag_two = Some 0,
      duration = Some 0, charge = Some 0, month = Some ''2023-12'',
      event_uuid = ''a55a0a9bd84c11624b5a39f0841902e6''\<rparr>"


text \<open>
  An instance of the PostgreSQL builtins for evaluating the model on the sample files
  below: each function is tabulated on the values that occur there, for a session with
  \<open>TimeZone = UTC\<close>, and does nothing useful elsewhere (the input conversions reject,
  the casts and the digest return the empty text). The digests are the MD5 values of the
  keys. No statement fails for an outside reason.
\<close>

definition sample_pg :: pg where
  "sample_pg =
     \<lparr>md5 = (\<lambda>s. if s = ''1_2024-01-01 00:00:00+00_call_5_1.50000000''
                     then ''38c9ec83bc40236c77b99fccc69e4dc2''
                   else if s = ''2_2024-01-01 00:05:00+00_sms_5_0.10000000''
                     then ''701d121b5fda3d5e217552c5c41e52dd''
                   else []),
      int4_text = str_int,
      timestamptz_text = (\<lambda>t. if t = 1704067200000000 then ''2024-01-01 00:00:00+00''
                                else if t = 1704067500000000 then ''2024-01-01 00:05:00+00''
                                else []),
      numeric_text = (\<lambda>n. if n = 150000000 then ''1.50000000''
                            else if n = 10000000 then ''0.10000000'' else []),
      int4_in = (\<lambda>s. if s = ''0'' then Some 0 else if s = ''1'' then Some 1
                       else if s = ''2'' then Some 2 else if s = ''5'' then Some 5 else None),
      timestamptz_in = (\<lambda>s. if s = ''2024-01-01 00:00:00+00'' then Some 1704067200000000
                              else if s = ''2024-01-01 00:05:00+00'' then Some 1704067500000000
                              else None),
      varchar_in = (\<lambda>n s. if length s \<le> n then Some s else None),
      float8_in = (\<lambda>s. if s = ''2.5'' then Some (5 / 2) else if s = ''0'' then Some 0 else None),
      numeric_in = (\<lambda>s. if s = ''1.5'' then Some 150000000
                          else if s = ''0.1'' then Some 10000000 else None),
      copy_quoted_row = (\<lambda>r. None),
      minus_one_day = (\<lambda>t. t - 86400000000),
      minus_months = (\<lambda>t m. if t = 1719792000000000 \<and> m = 6 then 1704067200000000 else t),
      fault = (\<lambda>s. None)\<rparr>"

text \<open>Three stored rows: the two sample events, and a row whose event time is \<open>NULL\<close>.\<close>

definition call_row :: usage_row where
  "call_row =
     \<lparr>customer_id = Some 1, event_start_time = Some 1704067200000000, event_type = Some ''call'',
      rate_plan_id = Some 5, billing_flag_one = Some 0, billing_flag_two = Some 1,
      duration = Some (5 / 2), charge = Some 150000000, month = Some ''2024-01'',
      event_uuid = ''38c9ec83bc40236c77b99fccc69e4dc2''\<rparr>"

definition sms_row :: usage_row where
  "sms_row =
     \<lparr>customer_id = Some 2, event_start_time = Some 1704067500000000, event_type = Some ''sms'',
      rate_plan_id = Some 5, billing_flag_one = Some 0, billing_flag_two = Some 1,
      duration = Some 0, charge = Some 10000000, month = Some ''2024-01'',
      event_uuid = ''701d121b5fda3d5e217552c5c41e52dd''\<rparr>"

definition untimed_row :: usage_row where
  "untimed_row =
     \<lparr>customer_id = None, event_start_time = None, event_type = Some ''data'',
      rate_plan_id = Some 5, billing_flag_one = None, billing_flag_two = None,
      duration = None, charge = None, month = None,
      event_uuid = ''00000000000000000000000000000000''\<rparr>"

definition sample_db :: "usage_row list \<Rightarrow> db" where
  "sample_db rows =
     \<lparr>table_exists = True, usage = rows, uuid_function = True,
      indexes = [''idx_billing_customer_id'' \<mapsto> ''customer_id'',
                 ''idx_billing_event_time'' \<mapsto> ''event_start_time'',
                 ''idx_billing_event_type'' \<mapsto> ''event_type'',
                 ''idx_billing_month'' \<mapsto> ''month''],
      views = {}, temp_tables = Map.empty\<rparr>"

text \<open>\<open>psycopg2.connect\<close>: a new session on the database, no transaction work pending.\<close>

definition connect :: "db \<Rightarrow> conn" where
  "connect d = \<lparr>committed = drop_temp d, working = drop_temp d, aborted = False, executed = []\<rparr>"

definition sms_csv_row :: csv_row where
  "sms_csv_row = [''2'', ''2024-01-01 00:05:00+00'', ''sms'', ''5'', ''0'', ''1'', ''0'', ''0.1'', ''2024-01'']"

text \<open>The five business fields of a row, from which its identity is computed.\<close>

definition business_tuple ::
  "'a staged_row_scheme \<Rightarrow> int option \<times> timestamptz option \<times> string option \<times> int option \<times> numeric option" where
  "business_tuple s =
     (customer_id s, event_start_time s, event_type s, rate_plan_id s, charge s)"

text \<open>
  A database as \<open>setup_pipeline_db_structure\<close> leaves it: the table, the identity function
  and the four secondary indexes exist, and no view bears the name of one of the indexes.
\<close>

definition prepared :: "db \<Rightarrow> bool" where
  "prepared d \<longleftrightarrow>
     table_exists d \<and> uuid_function d
     \<and> (\<forall>(name, col) \<in> set index_columns. indexes d name = Some col \<and> name \<notin> views d)"






section \<open>Properties of the CSV validator\<close>

lemma validate_rows_ok_iff:
  "validate_rows p e i rows = Inr () \<longleftrightarrow>
     (\<forall>j < length rows. i + j < 5 \<longrightarrow> length (rows ! j) = e)"
proof (induction rows arbitrary: i)
  case Nil
  show ?case by simp
next
  case (Cons row rest)
  show ?case
  proof (cases "i \<ge> 5")
    case True
    then show ?thesis by simp
  next
    case False
    show ?thesis
    proof (cases "length row = e")
      case False
      with \<open>\<not> 5 \<le> i\<close> show ?thesis by (auto intro: exI [of _ 0])
    next
      case True
      have "(\<forall>j < length (row # rest). i + j < 5 \<longrightarrow> length ((row # rest) ! j) = e)
            \<longleftrightarrow> (\<forall>j < length rest. Suc i + j < 5 \<longrightarrow> length (rest ! j) = e)"
        using True by (auto simp: nth_Cons split: nat.splits)
      with True \<open>\<not> 5 \<le> i\<close> Cons.IH [of "Suc i"] show ?thesis by simp
    qed
  qed
qed

lemma validate_rows_first_mismatch:
  "k < length rows \<Longrightarrow> i + k < 5 \<Longrightarrow> length (rows ! k) \<noteq> e \<Longrightarrow>
   (\<forall>j < k. length (rows ! j) = e) \<Longrightarrow>
   validate_rows p e i rows = Inl (ValueError (validation_msg p e (i + k + 1) (length (rows ! k))))"
proof (induction rows arbitrary: i k)
  case Nil
  then show ?case by simp
next
  case (Cons row rest)
  show ?case
  proof (cases k)
    case 0
    with Cons.prems show ?thesis by simp
  next
    case (Suc k')
    have hd_ok: "length row = e"
      using Cons.prems(4) Suc by (auto dest: spec [of _ 0])
    have rest_ok: "\<forall>j < k'. length (rest ! j) = e"
      using Cons.prems(4) Suc by (auto dest: spec [of _ "Suc j" for j])
    have "validate_rows p e (Suc i) rest =
            Inl (ValueError (validation_msg p e (Suc i + k' + 1) (length (rest ! k'))))"
      using Cons.prems Suc rest_ok by (intro Cons.IH) auto
    with Cons.prems Suc hd_ok show ?thesis by simp
  qed
qed

lemma validate_rows_take:
  "validate_rows p e i (take (5 - i) rows) = validate_rows p e i rows"
proof (induction rows arbitrary: i)
  case Nil
  show ?case by simp
next
  case (Cons row rest)
  show ?case
  proof (cases "i \<ge> 5")
    case True
    then show ?thesis by simp
  next
    case False
    then have "5 - i = Suc (5 - Suc i)" by simp
    with False Cons.IH [of "Suc i"] show ?thesis by simp
  qed
qed

text \<open>
  Claim C5. A path that does not exist is rejected with a \<open>FileNotFoundError\<close>. For an
  existing file only the first five rows are inspected: the outcome is that of the file cut
  to its first five rows; the first row among them whose column count differs from the
  expected one raises a \<open>ValueError\<close> whose text carries the 1-based row index, the
  expected and the found column count; a file whose first row has 9 columns and whose second
  row has 8 is rejected reporting row 2; and the validator returns \<open>True\<close> exactly when
  every inspected row has the expected column count.
\<close>

theorem validate_csv_structure_spec:
  "(fs p = None \<longrightarrow>
      validate_csv_structure fs p =
        Inl (FileNotFoundError (''CSV Validation Error: File '' @ squote @ p @ squote @ '' not found.'')))
   \<and> (fs p = Some rows \<longrightarrow>
      validate_csv_structure fs p = validate_csv_structure (fs(p \<mapsto> take 5 rows)) p
      \<and> (\<forall>k. k < length rows \<and> k < 5 \<and> length (rows ! k) \<noteq> EXPECTED_CSV_COLUMNS
             \<and> (\<forall>j < k. length (rows ! j) = EXPECTED_CSV_COLUMNS) \<longrightarrow>
           validate_csv_structure fs p =
             Inl (ValueError (validation_msg p EXPECTED_CSV_COLUMNS (k + 1) (length (rows ! k)))))
      \<and> (\<forall>r1 r2 rest. rows = r1 # r2 # rest \<and> length r1 = 9 \<and> length r2 = 8 \<longrightarrow>
           validate_csv_structure fs p = Inl (ValueError (validation_msg p 9 2 8)))
      \<and> (validate_csv_structure fs p = Inr True \<longleftrightarrow>
           (\<forall>j < length rows. j < 5 \<longrightarrow> length (rows ! j) = EXPECTED_CSV_COLUMNS))
      \<and> validate_csv_structure fs p \<noteq> Inr False)"
proof (intro conjI impI allI)
  assume "fs p = None"
  then show "validate_csv_structure fs p =
      Inl (FileNotFoundError (''CSV Validation Error: File '' @ squote @ p @ squote @ '' not found.''))"
    by (simp add: validate_csv_structure_def)
next
  assume "fs p = Some rows"
  then show "validate_csv_structure fs p = validate_csv_structure (fs(p \<mapsto> take 5 rows)) p"
    using validate_rows_take [of p EXPECTED_CSV_COLUMNS 0 rows]
    by (simp add: validate_csv_structure_def)
next
  fix k
  assume f: "fs p = Some rows"
    and k: "k < length rows \<and> k < 5 \<and> length (rows ! k) \<noteq> EXPECTED_CSV_COLUMNS
             \<and> (\<forall>j < k. length (rows ! j) = EXPECTED_CSV_COLUMNS)"
  then have "validate_rows p EXPECTED_CSV_COLUMNS 0 rows =
      Inl (ValueError (validation_msg p EXPECTED_CSV_COLUMNS (0 + k + 1) (length (rows ! k))))"
    by (intro validate_rows_first_mismatch) auto
  with f show "validate_csv_structure fs p =
      Inl (ValueError (validation_msg p EXPECTED_CSV_COLUMNS (k + 1) (length (rows ! k))))"
    by (simp add: validate_csv_structure_def)
next
  fix r1 r2 rest
  assume f: "fs p = Some rows"
    and r: "rows = r1 # r2 # rest \<and> length r1 = 9 \<and> length r2 = 8"
  then show "validate_csv_structure fs p = Inl (ValueError (validation_msg p 9 2 8))"
    by (simp add: validate_csv_structure_def EXPECTED_CSV_COLUMNS_def numeral_2_eq_2)
next
  assume f: "fs p = Some rows"
  have "validate_csv_structure fs p = Inr True \<longleftrightarrow>
          validate_rows p EXPECTED_CSV_COLUMNS 0 rows = Inr ()"
    using f by (simp add: validate_csv_structure_def split: sum.splits)
  then show "validate_csv_structure fs p = Inr True \<longleftrightarrow>
      (\<forall>j < length rows. j < 5 \<longrightarrow> length (rows ! j) = EXPECTED_CSV_COLUMNS)"
    by (simp add: validate_rows_ok_iff)
next
  assume "fs p = Some rows"
  then show "validate_csv_structure fs p \<noteq> Inr False"
    by (simp add: validate_csv_structure_def split: sum.splits)
qed

theorem validate_csv_structure_spec_witness:
  "validate_csv_structure [''in.csv'' \<mapsto> [sample_row, short_row, sample_row]] ''in.csv'' =
     Inl (ValueError
       ([CHR ''C'', CHR ''S'', CHR ''V''] @ '' Validation Error (Row 2): Expected 9, found 8 in ''
          @ squote @ ''in.csv'' @ squote @ ''.''))
   \<and> validate_csv_structure [''in.csv'' \<mapsto> [sample_row, short_row, sample_row]] ''gone.csv'' =
     Inl (FileNotFoundError (''CSV Validation Error: File '' @ squote @ ''gone.csv'' @ squote @ '' not found.''))
   \<and> validate_csv_structure
        [''ok.csv'' \<mapsto> [sample_row, sample_row, sample_row, sample_row, sample_row, short_row]]
        ''ok.csv'' = Inr True"
proof -
  let ?fs = "[''in.csv'' \<mapsto> [sample_row, short_row, sample_row]]"
  let ?ok = "[''ok.csv'' \<mapsto> [sample_row, sample_row, sample_row, sample_row, sample_row, short_row]]"
  have m: "validation_msg ''in.csv'' 9 2 8 =
      [CHR ''C'', CHR ''S'', CHR ''V''] @ '' Validation Error (Row 2): Expected 9, found 8 in ''
          @ squote @ ''in.csv'' @ squote @ ''.''"
    by code_simp
  have a: "validate_csv_structure ?fs ''in.csv'' = Inl (ValueError (validation_msg ''in.csv'' 9 2 8))"
    using validate_csv_structure_spec [of ?fs "''in.csv''" "[sample_row, short_row, sample_row]"]
    by (simp add: sample_row_def short_row_def)
  have b: "validate_csv_structure ?fs ''gone.csv'' =
     Inl (FileNotFoundError (''CSV Validation Error: File '' @ squote @ ''gone.csv'' @ squote @ '' not found.''))"
    using validate_csv_structure_spec [of ?fs "''gone.csv''" "[]"] by simp
  have c: "validate_csv_structure ?ok ''ok.csv'' = Inr True"
  proof -
    let ?rows = "[sample_row, sample_row, sample_row, sample_row, sample_row, short_row]"
    have f: "?ok ''ok.csv'' = Some ?rows" by simp
    have "\<forall>j < length ?rows. j < 5 \<longrightarrow> length (?rows ! j) = EXPECTED_CSV_COLUMNS"
      by (auto simp: less_Suc_eq numeral_eq_Suc sample_row_def EXPECTED_CSV_COLUMNS_def)
    with f validate_csv_structure_spec [of ?ok "''ok.csv''" ?rows] show ?thesis by blast
  qed
  from a b c m show ?thesis by simp
qed

section \<open>The identity function on absent fields\<close>


text \<open>
  Claim C2 says that the identity function, called with an absent business field, returns
  the digest computed with the empty string in place of the field. The code does not: at
  the call with an absent customer id and the four other fields present,
  \<open>generate_event_uuid\<close> returns \<open>NULL\<close>, because the function is declared \<open>STRICT\<close> and
  its body, with the \<open>COALESCE\<close> that would render the absent field, is not run.
\<close>

theorem generate_event_uuid_null_customer_id:
  "generate_event_uuid P None (Some 1704067200000000) (Some ''call'') (Some 5) (Some 150000000)
     = None
   \<and> generate_event_uuid_body P None (Some 1704067200000000) (Some ''call'') (Some 5)
        (Some 150000000)
     = md5 P (''_'' @ timestamptz_text P 1704067200000000 @ ''_call_'' @ int4_text P 5 @ ''_''
              @ numeric_text P 150000000)"
  by (simp add: generate_event_uuid_def generate_event_uuid_body_def coalesce_text_def)

section \<open>Properties of the data quality checker\<close>

lemma check_missing_no_row [simp]: "check_missing None = Inr []"
  by (simp add: check_missing_def)

lemma check_future_no_row [simp]: "check_future None = []"
  by (simp add: check_future_def)

text \<open>
  Claim C7. Whatever the cursor does, the checker returns a pair and raises nothing. If
  the first query raises, or unpacking its row raises, or the second query raises, the
  result is \<open>False\<close> with the single issue \<open>DQ Exception:\<close> followed by the text of the
  exception. If both queries return and neither shows an anomaly (a query that returned
  no row shows none), the result is \<open>True\<close> with no issue.
\<close>

theorem run_data_quality_checks_exceptions:
  "(ex CheckMissingValues c = (c1, Inl e) \<longrightarrow>
      run_data_quality_checks_on ex c = (c1, False, [''DQ Exception: '' @ str_exc e]))
   \<and> (ex CheckMissingValues c = (c1, Inr r1) \<and> check_missing (fetchone r1) = Inl e \<longrightarrow>
      run_data_quality_checks_on ex c = (c1, False, [''DQ Exception: '' @ str_exc e]))
   \<and> (ex CheckMissingValues c = (c1, Inr r1) \<and> check_missing (fetchone r1) = Inr issues1
        \<and> ex CheckFutureDates c1 = (c2, Inl e) \<longrightarrow>
      run_data_quality_checks_on ex c = (c2, False, [''DQ Exception: '' @ str_exc e]))
   \<and> (ex CheckMissingValues c = (c1, Inr r1) \<and> ex CheckFutureDates c1 = (c2, Inr r2)
        \<and> (fetchone r1 = None \<or>
             (\<exists>m_cid m_time m_etype total_chk.
                fetchone r1 = Some [m_cid, m_time, m_etype, total_chk]
                \<and> \<not> (or_zero total_chk > 0
                       \<and> (or_zero m_cid > 0 \<or> or_zero m_time > 0 \<or> or_zero m_etype > 0))))
        \<and> (fetchone r2 = None \<or>
             (\<exists>future_count vs. fetchone r2 = Some (future_count # vs)
                \<and> \<not> or_zero future_count > 0)) \<longrightarrow>
      run_data_quality_checks_on ex c = (c2, True, []))"
proof (intro conjI impI)
  assume "ex CheckMissingValues c = (c1, Inl e)"
  then show "run_data_quality_checks_on ex c = (c1, False, [''DQ Exception: '' @ str_exc e])"
    by (simp add: run_data_quality_checks_on_def dq_try_def)
next
  assume "ex CheckMissingValues c = (c1, Inr r1) \<and> check_missing (fetchone r1) = Inl e"
  then show "run_data_quality_checks_on ex c = (c1, False, [''DQ Exception: '' @ str_exc e])"
    by (simp add: run_data_quality_checks_on_def dq_try_def)
next
  assume "ex CheckMissingValues c = (c1, Inr r1) \<and> check_missing (fetchone r1) = Inr issues1
        \<and> ex CheckFutureDates c1 = (c2, Inl e)"
  then show "run_data_quality_checks_on ex c = (c2, False, [''DQ Exception: '' @ str_exc e])"
    by (simp add: run_data_quality_checks_on_def dq_try_def)
next
  assume a: "ex CheckMissingValues c = (c1, Inr r1) \<and> ex CheckFutureDates c1 = (c2, Inr r2)
        \<and> (fetchone r1 = None \<or>
             (\<exists>m_cid m_time m_etype total_chk.
                fetchone r1 = Some [m_cid, m_time, m_etype, total_chk]
                \<and> \<not> (or_zero total_chk > 0
                       \<and> (or_zero m_cid > 0 \<or> or_zero m_time > 0 \<or> or_zero m_etype > 0))))
        \<and> (fetchone r2 = None \<or>
             (\<exists>future_count vs. fetchone r2 = Some (future_count # vs)
                \<and> \<not> or_zero future_count > 0))"
  from a have m: "check_missing (fetchone r1) = Inr []"
    by (auto simp: check_missing_def)
  from a have f: "check_future (fetchone r2) = []"
    by (auto simp: check_future_def)
  from a m f show "run_data_quality_checks_on ex c = (c2, True, [])"
    by (simp add: run_data_quality_checks_on_def dq_try_def)
qed

theorem run_data_quality_checks_exceptions_witness:
  "run_data_quality_checks_on (\<lambda>s c. (c, Inl (DatabaseError ''server closed the connection''))) ()
     = ((), False, [''DQ Exception: server closed the connection''])
   \<and> run_data_quality_checks_on
        (\<lambda>s c. (Suc c, if c = 0 then Inr (one_row [Some 0, None, Some 0, Some 3])
                        else Inl (OtherException ''timeout''))) (0::nat)
     = (2, False, [''DQ Exception: timeout''])
   \<and> run_data_quality_checks_on
        (\<lambda>s c. (c, Inr (one_row [Some 1, Some 2]))) ()
     = ((), False, [''DQ Exception: not enough values to unpack (expected 4, got 2)''])
   \<and> run_data_quality_checks_on (\<lambda>s c. (c, Inr \<lparr>rowcount = Some 0, fetchone = None\<rparr>)) ()
     = ((), True, [])"
proof -
  let ?down = "\<lambda>(s::stmt) (c::unit). (c, Inl (DatabaseError ''server closed the connection'') :: exc + sql_result)"
  let ?late = "\<lambda>(s::stmt) (c::nat). (Suc c, if c = 0 then Inr (one_row [Some 0, None, Some 0, Some 3])
                        else Inl (OtherException ''timeout''))"
  let ?short = "\<lambda>(s::stmt) (c::unit). (c, Inr (one_row [Some 1, Some 2]) :: exc + sql_result)"
  let ?empty = "\<lambda>(s::stmt) (c::unit). (c, Inr \<lparr>rowcount = Some 0, fetchone = None\<rparr> :: exc + sql_result)"
  have a: "run_data_quality_checks_on ?down () = ((), False, [''DQ Exception: server closed the connection''])"
    using run_data_quality_checks_exceptions
      [of ?down "()" "()" "DatabaseError ''server closed the connection''"]
    by simp
  have b: "run_data_quality_checks_on ?late 0 = (2, False, [''DQ Exception: timeout''])"
    using run_data_quality_checks_exceptions
      [of ?late 0 "Suc 0" "OtherException ''timeout''" "one_row [Some 0, None, Some 0, Some 3]" "[]" 2]
    by (simp add: check_missing_def one_row_def or_zero_def numeral_2_eq_2)
  have n: "str_nat (Suc (Suc 0)) = ''2''" by code_simp
  have c: "run_data_quality_checks_on ?short () =
      ((), False, [''DQ Exception: not enough values to unpack (expected 4, got 2)''])"
    using run_data_quality_checks_exceptions
      [of ?short "()" "()" "ValueError ''not enough values to unpack (expected 4, got 2)''"
          "one_row [Some 1, Some 2]"]
    by (simp add: check_missing_def one_row_def or_zero_def n)
  have d: "run_data_quality_checks_on ?empty () = ((), True, [])"
    using run_data_quality_checks_exceptions
      [of ?empty "()" "()" _ "\<lparr>rowcount = Some 0, fetchone = None\<rparr>" _ "()"
          "\<lparr>rowcount = Some 0, fetchone = None\<rparr>"]
    by simp
  from a b c d show ?thesis by simp
qed

section \<open>The missing-values query\<close>

lemma where_time_not_null: "where_time cond r \<Longrightarrow> event_start_time r \<noteq> None"
  by (simp add: where_time_def split: option.splits)

lemma sum_case_null_time_in_window:
  "or_zero (sum_case_null event_start_time (filter (where_time cond) rs)) = 0"
proof -
  have "filter (\<lambda>r. event_start_time r = None) (filter (where_time cond) rs) = []"
    by (auto simp: filter_empty_conv dest: where_time_not_null)
  then show ?thesis
    by (simp add: sum_case_null_def or_zero_def)
qed

text \<open>
  Claim C10. In every state of the store in which the missing-values query runs, the
  value the checker reads as the missing event-time count is zero: the \<open>WHERE\<close> clause
  keeps no row whose event time is \<open>NULL\<close>. So the checker appends either no issue, or an
  issue whose event-time count is 0 and that a missing customer id or event type caused.
\<close>

theorem missing_time_count_is_zero:
  "sql_exec P now CheckMissingValues d = Inr (d', r) \<Longrightarrow>
     \<exists>m_cid m_time m_etype total_chk.
       fetchone r = Some [m_cid, m_time, m_etype, total_chk] \<and> or_zero m_time = 0
       \<and> (check_missing (fetchone r) = Inr []
           \<or> (check_missing (fetchone r) =
                 Inr [missing_values_issue (or_zero m_cid) 0 (or_zero m_etype) (or_zero total_chk)]
               \<and> (or_zero m_cid > 0 \<or> or_zero m_etype > 0)))"
proof -
  assume a: "sql_exec P now CheckMissingValues d = Inr (d', r)"
  define recent where
    "recent = filter (where_time (\<lambda>t. t \<ge> minus_one_day P now \<and> t < now)) (usage d)"
  define m_cid where "m_cid = sum_case_null customer_id recent"
  define m_time where "m_time = sum_case_null event_start_time recent"
  define m_etype where "m_etype = sum_case_null event_type recent"
  define total_chk where "total_chk = Some (int (length recent))"
  from a have row: "fetchone r = Some [m_cid, m_time, m_etype, total_chk]"
    by (auto simp: Let_def one_row_def recent_def m_cid_def m_time_def m_etype_def total_chk_def
             split: if_splits)
  have zero: "or_zero m_time = 0"
    unfolding m_time_def recent_def by (rule sum_case_null_time_in_window)
  have "check_missing (Some [m_cid, m_time, m_etype, total_chk]) = Inr []
        \<or> (check_missing (Some [m_cid, m_time, m_etype, total_chk]) =
              Inr [missing_values_issue (or_zero m_cid) 0 (or_zero m_etype) (or_zero total_chk)]
            \<and> (or_zero m_cid > 0 \<or> or_zero m_etype > 0))"
    using zero by (simp add: check_missing_def)
  with row zero show ?thesis by simp
qed

theorem missing_time_count_is_zero_witness:
  "sql_exec sample_pg 1704067800000000 CheckMissingValues
       (sample_db [call_row, untimed_row, sms_row])
     = Inr (sample_db [call_row, untimed_row, sms_row], one_row [Some 0, Some 0, Some 0, Some 2])
   \<and> check_missing (Some [Some 0, Some 0, Some 0, Some 2]) = Inr []"
proof -
  let ?d = "sample_db [call_row, untimed_row, sms_row]"
  have e: "sql_exec sample_pg 1704067800000000 CheckMissingValues ?d
             = Inr (?d, one_row [Some 0, Some 0, Some 0, Some 2])"
    by (simp add: sample_db_def sample_pg_def where_time_def sum_case_null_def
                  call_row_def untimed_row_def sms_row_def)
  from missing_time_count_is_zero [OF e] have "check_missing (Some [Some 0, Some 0, Some 0, Some 2]) = Inr []"
    by (auto simp: one_row_def or_zero_def)
  with e show ?thesis by simp
qed

section \<open>Retention\<close>

lemma where_time_older: "where_time (\<lambda>t. t < cutoff) = older_than cutoff"
  by (auto simp: where_time_def older_than_def fun_eq_iff split: option.splits)

lemma retention_enabled_result:
  assumes "ENABLE_RETENTION_POLICY cfg"
  shows "apply_pipeline_data_retention P now cfg c = (c', Inr ()) \<longleftrightarrow>
           \<not> aborted c \<and> fault P (DeleteOldData (RETENTION_PERIOD_MONTHS cfg)) = None
           \<and> table_exists (working c)
           \<and> c' = commit (c\<lparr>executed := executed c @ [DeleteOldData (RETENTION_PERIOD_MONTHS cfg)],
                             working := (working c)\<lparr>usage :=
                               filter (\<lambda>r. \<not> older_than (minus_months P now (RETENTION_PERIOD_MONTHS cfg)) r)
                                 (usage (working c))\<rparr>\<rparr>)"
  using assms
  by (auto simp: apply_pipeline_data_retention_def execute_def Let_def where_time_older
           split: option.splits sum.splits if_splits prod.splits)

text \<open>
  Claim C8. With retention disabled the enforcer returns at once: the connection, with the
  list of statements it has run, is the one it was given, so no \<open>DELETE\<close> was sent and the
  store is unchanged. With retention enabled and a period of \<open>M\<close> months, whenever the
  enforcer returns normally it has sent the one \<open>DELETE\<close> and committed: the rows of the
  store are those of before whose event time is not strictly older than
  \<open>CURRENT_TIMESTAMP\<close> minus \<open>M\<close> months, in their order; a row whose event time equals that
  boundary is kept. It does return normally when the transaction is healthy, the table
  exists and the statement meets no outside failure.
\<close>

theorem apply_pipeline_data_retention_spec:
  "(\<not> ENABLE_RETENTION_POLICY cfg \<longrightarrow>
      apply_pipeline_data_retention P now cfg c = (c, Inr ()))
   \<and> (ENABLE_RETENTION_POLICY cfg \<and> \<not> aborted c \<and> table_exists (working c)
        \<and> fault P (DeleteOldData (RETENTION_PERIOD_MONTHS cfg)) = None \<longrightarrow>
      snd (apply_pipeline_data_retention P now cfg c) = Inr ())
   \<and> (ENABLE_RETENTION_POLICY cfg
        \<and> apply_pipeline_data_retention P now cfg c = (c', Inr ()) \<longrightarrow>
      executed c' = executed c @ [DeleteOldData (RETENTION_PERIOD_MONTHS cfg)]
      \<and> usage (committed c') =
          filter (\<lambda>r. \<not> older_than (minus_months P now (RETENTION_PERIOD_MONTHS cfg)) r)
            (usage (working c))
      \<and> (\<forall>r \<in> set (usage (working c)).
            event_start_time r = Some (minus_months P now (RETENTION_PERIOD_MONTHS cfg)) \<longrightarrow>
            r \<in> set (usage (committed c'))))"
proof (intro conjI impI)
  assume "\<not> ENABLE_RETENTION_POLICY cfg"
  then show "apply_pipeline_data_retention P now cfg c = (c, Inr ())"
    by (simp add: apply_pipeline_data_retention_def)
next
  assume a: "ENABLE_RETENTION_POLICY cfg \<and> \<not> aborted c \<and> table_exists (working c)
        \<and> fault P (DeleteOldData (RETENTION_PERIOD_MONTHS cfg)) = None"
  then show "snd (apply_pipeline_data_retention P now cfg c) = Inr ()"
    by (simp add: apply_pipeline_data_retention_def execute_def Let_def)
next
  assume a: "ENABLE_RETENTION_POLICY cfg \<and> apply_pipeline_data_retention P now cfg c = (c', Inr ())"
  let ?keep = "filter (\<lambda>r. \<not> older_than (minus_months P now (RETENTION_PERIOD_MONTHS cfg)) r)
            (usage (working c))"
  from a have c': "\<not> aborted c"
      "c' = commit (c\<lparr>executed := executed c @ [DeleteOldData (RETENTION_PERIOD_MONTHS cfg)],
                             working := (working c)\<lparr>usage := ?keep\<rparr>\<rparr>)"
    using retention_enabled_result [of cfg P now c c'] by simp_all
  from c' show "executed c' = executed c @ [DeleteOldData (RETENTION_PERIOD_MONTHS cfg)]"
    by (simp add: commit_def)
  from c' show u: "usage (committed c') = ?keep"
    by (simp add: commit_def drop_temp_def)
  show "\<forall>r \<in> set (usage (working c)).
            event_start_time r = Some (minus_months P now (RETENTION_PERIOD_MONTHS cfg)) \<longrightarrow>
            r \<in> set (usage (committed c'))"
    unfolding u by (simp add: older_than_def)
qed

theorem apply_pipeline_data_retention_spec_witness:
  "apply_pipeline_data_retention sample_pg 1719792000000000
       \<lparr>ENABLE_RETENTION_POLICY = False, RETENTION_PERIOD_MONTHS = 6\<rparr>
       (connect (sample_db [expired_row, call_row, untimed_row, sms_row]))
     = (connect (sample_db [expired_row, call_row, untimed_row, sms_row]), Inr ())
   \<and> snd (apply_pipeline_data_retention sample_pg 1719792000000000
         \<lparr>ENABLE_RETENTION_POLICY = True, RETENTION_PERIOD_MONTHS = 6\<rparr>
         (connect (sample_db [expired_row, call_row, untimed_row, sms_row]))) = Inr ()
   \<and> usage (committed (fst (apply_pipeline_data_retention sample_pg 1719792000000000
         \<lparr>ENABLE_RETENTION_POLICY = True, RETENTION_PERIOD_MONTHS = 6\<rparr>
         (connect (sample_db [expired_row, call_row, untimed_row, sms_row])))))
     = [call_row, untimed_row, sms_row]
   \<and> executed (fst (apply_pipeline_data_retention sample_pg 1719792000000000
         \<lparr>ENABLE_RETENTION_POLICY = True, RETENTION_PERIOD_MONTHS = 6\<rparr>
         (connect (sample_db [expired_row, call_row, untimed_row, sms_row]))))
     = [DeleteOldData 6]"
proof -
  let ?off = "\<lparr>ENABLE_RETENTION_POLICY = False, RETENTION_PERIOD_MONTHS = 6\<rparr>"
  let ?on = "\<lparr>ENABLE_RETENTION_POLICY = True, RETENTION_PERIOD_MONTHS = 6\<rparr>"
  let ?c = "connect (sample_db [expired_row, call_row, untimed_row, sms_row])"
  let ?run = "apply_pipeline_data_retention sample_pg 1719792000000000 ?on ?c"
  have pre: "ENABLE_RETENTION_POLICY ?on \<and> \<not> aborted ?c \<and> table_exists (working ?c)
        \<and> fault sample_pg (DeleteOldData (RETENTION_PERIOD_MONTHS ?on)) = None"
    by (simp add: connect_def sample_db_def drop_temp_def sample_pg_def)
  have off: "apply_pipeline_data_retention sample_pg 1719792000000000 ?off ?c = (?c, Inr ())"
    using apply_pipeline_data_retention_spec [of ?off sample_pg 1719792000000000 ?c] by simp
  have ok: "snd ?run = Inr ()"
    using apply_pipeline_data_retention_spec [of ?on sample_pg 1719792000000000 ?c] pre by blast
  then have run: "?run = (fst ?run, Inr ())"
    by (metis prod.collapse)
  have cut: "minus_months sample_pg 1719792000000000 6 = 1704067200000000"
    by (simp add: sample_pg_def)
  have keep: "filter (\<lambda>r. \<not> older_than 1704067200000000 r)
                 [expired_row, call_row, untimed_row, sms_row] = [call_row, untimed_row, sms_row]"
    by (simp add: older_than_def expired_row_def call_row_def untimed_row_def sms_row_def)
  have wk: "usage (working ?c) = [expired_row, call_row, untimed_row, sms_row]" "executed ?c = []"
    by (simp_all add: connect_def sample_db_def drop_temp_def)
  from apply_pipeline_data_retention_spec [of ?on sample_pg 1719792000000000 ?c "fst ?run"] run
  have "executed (fst ?run) = executed ?c @ [DeleteOldData 6]
      \<and> usage (committed (fst ?run)) =
          filter (\<lambda>r. \<not> older_than (minus_months sample_pg 1719792000000000 6) r)
            (usage (working ?c))"
    by simp
  with cut keep wk have "executed (fst ?run) = [DeleteOldData 6]
      \<and> usage (committed (fst ?run)) = [call_row, untimed_row, sms_row]"
    by simp
  with off ok show ?thesis by simp
qed

section \<open>Statements on a connection\<close>

lemma execute_executed: "executed (fst (execute P now s c)) = executed c @ [s]"
  by (simp add: execute_def Let_def split: option.splits sum.splits prod.splits)

lemma execute_committed: "committed (fst (execute P now s c)) = committed c"
  by (simp add: execute_def Let_def split: option.splits sum.splits prod.splits)

lemma execute_ok:
  "execute P now s c = (c', Inr r) \<longleftrightarrow>
     \<not> aborted c \<and> fault P s = None
     \<and> (\<exists>d. sql_exec P now s (working c) = Inr (d, r)
              \<and> c' = c\<lparr>executed := executed c @ [s], working := d\<rparr>)"
  by (auto simp: execute_def Let_def split: option.splits sum.splits)

section \<open>Reading the file into the staging buffer\<close>

lemma stage_csv_rows_eq:
  "stage_csv_rows p i rows =
     (filter (\<lambda>r. length r = EXPECTED_CSV_COLUMNS) rows,
      map (\<lambda>j. skip_msg p (i + j + 1))
        (filter (\<lambda>j. length (rows ! j) \<noteq> EXPECTED_CSV_COLUMNS) [0..<length rows]))"
proof (induction rows arbitrary: i)
  case Nil
  show ?case by simp
next
  case (Cons r rest)
  have shift: "[0..<length (r # rest)] = 0 # map Suc [0..<length rest]"
    by (simp add: upt_conv_Cons map_Suc_upt del: upt_Suc)
  show ?case
    unfolding shift by (simp add: Cons.IH [of "Suc i"] filter_map comp_def)
qed






lemma sample_lengths:
  "length sample_row = 9" "length short_row = 8" "length sms_csv_row = 9"
  by (simp_all add: sample_row_def short_row_def sms_csv_row_def)


text \<open>
  Claim C9. When no row of the file has 9 columns (the empty file included), the only
  statement the load sends is the creation of the staging table: no index is looked up or
  dropped, nothing is copied or merged, nothing is committed. When that statement
  succeeds (healthy transaction, fresh staging name, no outside failure) the load returns
  0 and the open transaction differs from before by the empty staging table alone: rows
  and secondary indexes of the permanent table are unchanged.
\<close>

theorem load_nothing_accepted:
  "fs p = Some rows \<and> (\<forall>r \<in> set rows. length r \<noteq> 9) \<Longrightarrow>
     (case load_telco_data P now fs p n c of
        (c', warnings, result) \<Rightarrow>
          executed c' = executed c @ [CreateTempTable n]
          \<and> committed c' = committed c
          \<and> (\<not> aborted c \<and> fault P (CreateTempTable n) = None
               \<and> n \<notin> dom (temp_tables (working c)) \<longrightarrow>
              result = Inr 0
              \<and> working c' = (working c)\<lparr>temp_tables := (temp_tables (working c))(n \<mapsto> [])\<rparr>
              \<and> usage (working c') = usage (working c)
              \<and> indexes (working c') = indexes (working c)
              \<and> aborted c' = aborted c))"
proof -
  assume a: "fs p = Some rows \<and> (\<forall>r \<in> set rows. length r \<noteq> 9)"
  then have "filter (\<lambda>r. length r = EXPECTED_CSV_COLUMNS) rows = []"
    by (simp add: filter_empty_conv EXPECTED_CSV_COLUMNS_def)
  then have st: "fst (stage_csv_rows p 0 rows) = []"
    by (simp add: stage_csv_rows_eq)
  obtain c1 r1 where e: "execute P now (CreateTempTable n) c = (c1, r1)"
    by (cases "execute P now (CreateTempTable n) c")
  have x: "executed c1 = executed c @ [CreateTempTable n]" "committed c1 = committed c"
    using execute_executed [of P now "CreateTempTable n" c]
          execute_committed [of P now "CreateTempTable n" c] e by simp_all
  show ?thesis
  proof (cases r1)
    case (Inl err)
    with e x a show ?thesis
      by (auto simp: load_telco_data_def rollback_def execute_def Let_def
               split: option.splits sum.splits if_splits)
  next
    case (Inr res)
    with e have ok: "\<not> aborted c" "fault P (CreateTempTable n) = None"
       "\<exists>d. sql_exec P now (CreateTempTable n) (working c) = Inr (d, res)
              \<and> c1 = c\<lparr>executed := executed c @ [CreateTempTable n], working := d\<rparr>"
      by (simp_all add: execute_ok)
    then have c1: "c1 = c\<lparr>executed := executed c @ [CreateTempTable n],
          working := (working c)\<lparr>temp_tables := (temp_tables (working c))(n \<mapsto> [])\<rparr>\<rparr>"
      by (auto split: if_splits)
    from e Inr a st c1 show ?thesis
      by (auto simp: load_telco_data_def split: prod.splits)
  qed
qed

theorem load_nothing_accepted_witness:
  "snd (load_telco_data sample_pg 0 [''in.csv'' \<mapsto> [short_row, []]] ''in.csv'' ''telco_staging_1''
          (connect (sample_db [call_row])))
     = ([''Skipping malformed row 1 in '' @ squote @ ''in.csv'' @ squote @ ''.'',
         ''Skipping malformed row 2 in '' @ squote @ ''in.csv'' @ squote @ ''.''], Inr 0)
   \<and> executed (fst (load_telco_data sample_pg 0 [''in.csv'' \<mapsto> [short_row, []]] ''in.csv''
          ''telco_staging_1'' (connect (sample_db [call_row]))))
     = [CreateTempTable ''telco_staging_1'']
   \<and> usage (working (fst (load_telco_data sample_pg 0 [''in.csv'' \<mapsto> [short_row, []]] ''in.csv''
          ''telco_staging_1'' (connect (sample_db [call_row])))))
     = [call_row]
   \<and> indexes (working (fst (load_telco_data sample_pg 0 [''in.csv'' \<mapsto> [short_row, []]] ''in.csv''
          ''telco_staging_1'' (connect (sample_db [call_row])))))
     = indexes (sample_db [call_row])"
proof -
  let ?fs = "[''in.csv'' \<mapsto> [short_row, []]]"
  let ?c = "connect (sample_db [call_row])"
  let ?run = "load_telco_data sample_pg 0 ?fs ''in.csv'' ''telco_staging_1'' ?c"
  have pre: "?fs ''in.csv'' = Some [short_row, []] \<and> (\<forall>r \<in> set [short_row, []]. length r \<noteq> 9)"
    by (simp add: sample_lengths)
  have ok: "\<not> aborted ?c \<and> fault sample_pg (CreateTempTable ''telco_staging_1'') = None
      \<and> ''telco_staging_1'' \<notin> dom (temp_tables (working ?c))"
    by (simp add: connect_def sample_db_def drop_temp_def sample_pg_def)
  have w: "fst (snd ?run) = [''Skipping malformed row 1 in '' @ squote @ ''in.csv'' @ squote @ ''.'',
         ''Skipping malformed row 2 in '' @ squote @ ''in.csv'' @ squote @ ''.'']"
    by code_simp
  have st: "executed ?c = []" "usage (working ?c) = [call_row]"
      "indexes (working ?c) = indexes (sample_db [call_row])"
    by (simp_all add: connect_def sample_db_def drop_temp_def)
  from load_nothing_accepted [where fs = ?fs and p = "''in.csv''" and rows = "[short_row, []]"
         and P = sample_pg and now = 0 and n = "''telco_staging_1''" and c = ?c, OF pre] ok st
  have "snd (snd ?run) = Inr 0 \<and> executed (fst ?run) = [CreateTempTable ''telco_staging_1'']
      \<and> usage (working (fst ?run)) = [call_row]
      \<and> indexes (working (fst ?run)) = indexes (sample_db [call_row])"
    by (auto split: prod.splits)
  with w show ?thesis
    by (metis prod.collapse)
qed

section \<open>Secondary indexes around the merge\<close>

lemma recreate_statements:
  "map snd NON_PK_INDEXES_TO_RECREATE = map (\<lambda>(name, col). CreateIndex name col) index_columns"
  "map fst NON_PK_INDEXES_TO_CREATE = map fst index_columns"
  by (simp_all add: NON_PK_INDEXES_TO_RECREATE_def NON_PK_INDEXES_TO_CREATE_def index_columns_def)

lemma execute_ok_state:
  "execute P now s c = (c', Inr r) \<Longrightarrow>
     \<not> aborted c \<and> \<not> aborted c' \<and> committed c' = committed c
     \<and> executed c' = executed c @ [s]
     \<and> sql_exec P now s (working c) = Inr (working c', r)"
  by (auto simp: execute_ok)

lemma drop_existing_indexes_ok:
  "drop_existing_indexes P now names c = (c', Inr ()) \<Longrightarrow>
     working c' = (working c)\<lparr>indexes := (\<lambda>x. if x \<in> set names then None else indexes (working c) x)\<rparr>
     \<and> committed c' = committed c \<and> aborted c' = aborted c
     \<and> (\<exists>ss. executed c' = executed c @ ss)"
proof (induction names arbitrary: c)
  case Nil
  then show ?case by simp
next
  case (Cons name rest)
  obtain c1 r1 where e1: "execute P now (SelectPgClass name) c = (c1, Inr r1)"
    using Cons.prems by (auto split: prod.splits sum.splits)
  from execute_ok_state [OF e1] have s1: "\<not> aborted c" "\<not> aborted c1" "committed c1 = committed c"
      "executed c1 = executed c @ [SelectPgClass name]" "working c1 = working c"
      "truthy (fetchone r1) = relation_exists (working c) name"
    by (auto simp: one_row_def split: if_splits)
  show ?case
  proof (cases "relation_exists (working c) name")
    case True
    then obtain c2 r2 where e2: "execute P now (DropIndexIfExists name) c1 = (c2, Inr r2)"
        and rest: "drop_existing_indexes P now rest c2 = (c', Inr ())"
      using Cons.prems e1 s1 by (auto split: prod.splits sum.splits)
    from execute_ok_state [OF e2] s1 True
    have s2: "\<not> aborted c2" "committed c2 = committed c"
        "executed c2 = executed c @ [SelectPgClass name, DropIndexIfExists name]"
        "working c2 = (working c)\<lparr>indexes := (indexes (working c))(name := None)\<rparr>"
      by (auto split: if_splits)
    from Cons.IH [OF rest] s2 s1 show ?thesis
      by (auto simp: fun_eq_iff)
  next
    case False
    then have rest: "drop_existing_indexes P now rest c1 = (c', Inr ())"
      using Cons.prems e1 s1 by (auto split: prod.splits sum.splits)
    from False have none: "indexes (working c) name = None"
      by (auto simp: relation_exists_def)
    from Cons.IH [OF rest] s1 none show ?thesis
      by (auto simp: fun_eq_iff)
  qed
qed

lemma execute_all_ok_state:
  "execute_all P now ss c = (c', Inr ()) \<Longrightarrow>
     committed c' = committed c \<and> aborted c' = aborted c \<and> executed c' = executed c @ ss"
proof (induction ss arbitrary: c)
  case Nil
  then show ?case by simp
next
  case (Cons s ss)
  then obtain c1 r1 where e1: "execute P now s c = (c1, Inr r1)"
      and rest: "execute_all P now ss c1 = (c', Inr ())"
    by (auto split: prod.splits sum.splits)
  from execute_ok_state [OF e1] Cons.IH [OF rest] show ?case by simp
qed

lemma create_indexes_ok:
  "execute_all P now (map (\<lambda>(name, col). CreateIndex name col) pairs) c = (c', Inr ()) \<Longrightarrow>
     working c' = (working c)\<lparr>indexes :=
        (\<lambda>x. case map_of pairs x of Some col \<Rightarrow> Some col | None \<Rightarrow> indexes (working c) x)\<rparr>
     \<and> (\<forall>name \<in> fst ` set pairs. indexes (working c) name = None)"
proof (induction pairs arbitrary: c)
  case Nil
  then show ?case by simp
next
  case (Cons pr rest)
  obtain name col where pr: "pr = (name, col)" by (cases pr)
  from Cons.prems pr obtain c1 r1 where e1: "execute P now (CreateIndex name col) c = (c1, Inr r1)"
      and r: "execute_all P now (map (\<lambda>(name, col). CreateIndex name col) rest) c1 = (c', Inr ())"
    by (auto split: prod.splits sum.splits)
  from execute_ok_state [OF e1]
  have s1: "working c1 = (working c)\<lparr>indexes := (indexes (working c))(name \<mapsto> col)\<rparr>"
      "indexes (working c) name = None"
    by (auto simp: relation_exists_def split: if_splits)
  from Cons.IH [OF r] have ih: "working c' = (working c1)\<lparr>indexes :=
        (\<lambda>x. case map_of rest x of Some col \<Rightarrow> Some col | None \<Rightarrow> indexes (working c1) x)\<rparr>"
      "\<forall>m \<in> fst ` set rest. indexes (working c1) m = None"
    by simp_all
  from ih(2) s1 have fresh: "\<forall>m \<in> fst ` set rest. m \<noteq> name \<and> indexes (working c) m = None"
    by (auto split: if_splits)
  then have none: "map_of rest name = None"
    by (metis map_of_eq_None_iff)
  have fn: "(\<lambda>x. case map_of rest x of Some col \<Rightarrow> Some col
                  | None \<Rightarrow> ((indexes (working c))(name \<mapsto> col)) x)
            = (\<lambda>x. case map_of (pr # rest) x of Some col \<Rightarrow> Some col
                  | None \<Rightarrow> indexes (working c) x)"
    using none by (auto simp: fun_eq_iff pr split: option.splits)
  have "working c' = (working c)\<lparr>indexes :=
        (\<lambda>x. case map_of rest x of Some col \<Rightarrow> Some col
             | None \<Rightarrow> ((indexes (working c))(name \<mapsto> col)) x)\<rparr>"
    using ih(1) s1(1) by (simp cong: option.case_cong)
  with fn s1 fresh pr show ?case
    by simp
qed


lemma restored_indexes:
  "(\<lambda>x. case map_of index_columns x of Some col \<Rightarrow> Some col
         | None \<Rightarrow> (if x \<in> set (map fst index_columns) then None else m x))
   = (\<lambda>x. case map_of index_columns x of Some col \<Rightarrow> Some col | None \<Rightarrow> m x)"
  by (auto simp: fun_eq_iff map_of_eq_None_iff split: option.splits)

lemma load_staged_ok:
  assumes "load_staged P now n buffer c = (c', Inr k)"
  shows "\<exists>staged0 new tbl k'.
           temp_tables (working c) n = Some staged0 \<and> copy_rows P buffer = Some new
         \<and> table_exists (working c) \<and> uuid_function (working c)
         \<and> insert_on_conflict_do_nothing P (staged0 @ new) (usage (working c)) 0 = Inr (tbl, k')
         \<and> k = int k'
         \<and> working c' = (working c)\<lparr>temp_tables := (temp_tables (working c))(n \<mapsto> staged0 @ new),
               indexes := (\<lambda>x. case map_of index_columns x of Some col \<Rightarrow> Some col
                                | None \<Rightarrow> indexes (working c) x),
               usage := tbl\<rparr>
         \<and> committed c' = committed c \<and> \<not> aborted c \<and> \<not> aborted c'
         \<and> (\<exists>pre. executed c' =
               executed c @ pre @ [InsertFromStaging n] @ map snd NON_PK_INDEXES_TO_RECREATE)"
proof -
  from assms obtain c1 r1 c2 r2 c3 c4 r4 c5 where
      e1: "execute P now (CopyFrom n buffer) c = (c1, Inr r1)"
    and e2: "execute P now (SelectCount n) c1 = (c2, Inr r2)"
    and e3: "drop_existing_indexes P now (map fst NON_PK_INDEXES_TO_CREATE) c2 = (c3, Inr ())"
    and e4: "execute P now (InsertFromStaging n) c3 = (c4, Inr r4)"
    and e5: "execute_all P now (map snd NON_PK_INDEXES_TO_RECREATE) c4 = (c5, Inr ())"
    and res: "c' = c5" "k = (case rowcount r4 of Some n \<Rightarrow> n | None \<Rightarrow> -1)"
    by (auto simp: load_staged_def Let_def split: prod.splits sum.splits)
  from execute_ok_state [OF e1] obtain staged0 new where
      s1: "\<not> aborted c" "\<not> aborted c1" "committed c1 = committed c"
        "executed c1 = executed c @ [CopyFrom n buffer]"
        "temp_tables (working c) n = Some staged0" "copy_rows P buffer = Some new"
        "working c1 = (working c)\<lparr>temp_tables := (temp_tables (working c))(n \<mapsto> staged0 @ new)\<rparr>"
    by (auto split: option.splits)
  from execute_ok_state [OF e2] s1 have
      s2: "\<not> aborted c2" "committed c2 = committed c"
        "executed c2 = executed c @ [CopyFrom n buffer, SelectCount n]"
        "working c2 = working c1"
    by (auto split: option.splits)
  from drop_existing_indexes_ok [OF e3] s2 obtain ss where
      s3: "\<not> aborted c3" "committed c3 = committed c"
        "executed c3 = executed c @ [CopyFrom n buffer, SelectCount n] @ ss"
        "working c3 = (working c1)\<lparr>indexes :=
            (\<lambda>x. if x \<in> set (map fst index_columns) then None else indexes (working c1) x)\<rparr>"
    by (auto simp: recreate_statements cong: if_cong)
  from execute_ok_state [OF e4] s3 s1 obtain tbl k' where
      s4: "\<not> aborted c4" "committed c4 = committed c"
        "executed c4 = executed c @ [CopyFrom n buffer, SelectCount n] @ ss @ [InsertFromStaging n]"
        "table_exists (working c)" "uuid_function (working c)"
        "insert_on_conflict_do_nothing P (staged0 @ new) (usage (working c)) 0 = Inr (tbl, k')"
        "working c4 = (working c3)\<lparr>usage := tbl\<rparr>" "rowcount r4 = Some (int k')"
    by (auto simp: affected_def split: option.splits if_splits sum.splits)
  from execute_all_ok_state [OF e5] s4 have
      s5: "\<not> aborted c5" "committed c5 = committed c"
        "executed c5 = executed c @ ([CopyFrom n buffer, SelectCount n] @ ss)
            @ [InsertFromStaging n] @ map snd NON_PK_INDEXES_TO_RECREATE"
    by simp_all
  from create_indexes_ok [OF e5 [unfolded recreate_statements]]
  have w5: "working c5 = (working c4)\<lparr>indexes :=
        (\<lambda>x. case map_of index_columns x of Some col \<Rightarrow> Some col
             | None \<Rightarrow> indexes (working c4) x)\<rparr>"
    by simp
  have "indexes (working c4) =
      (\<lambda>x. if x \<in> set (map fst index_columns) then None else indexes (working c) x)"
    using s4 s3 s1 by (simp cong: if_cong)
  then have "working c5 = (working c4)\<lparr>indexes :=
        (\<lambda>x. case map_of index_columns x of Some col \<Rightarrow> Some col
             | None \<Rightarrow> indexes (working c) x)\<rparr>"
    using w5 restored_indexes [of "indexes (working c)"] by (simp cong: option.case_cong)
  then have "working c5 = (working c)\<lparr>temp_tables := (temp_tables (working c))(n \<mapsto> staged0 @ new),
               indexes := (\<lambda>x. case map_of index_columns x of Some col \<Rightarrow> Some col
                                | None \<Rightarrow> indexes (working c) x),
               usage := tbl\<rparr>"
    using s4 s3 s1 by (simp cong: if_cong option.case_cong)
  then have w: "working c' = (working c)\<lparr>temp_tables := (temp_tables (working c))(n \<mapsto> staged0 @ new),
               indexes := (\<lambda>x. case map_of index_columns x of Some col \<Rightarrow> Some col
                                | None \<Rightarrow> indexes (working c) x),
               usage := tbl\<rparr>"
    using res by simp
  have kk: "k = int k'"
    using res s4 by simp
  have tr: "\<exists>pre. executed c' =
               executed c @ pre @ [InsertFromStaging n] @ map snd NON_PK_INDEXES_TO_RECREATE"
    using s5(3) res(1) by blast
  have st: "committed c' = committed c" "\<not> aborted c'"
    using s5 res by simp_all
  show ?thesis
    apply (rule exI [of _ staged0])
    apply (rule exI [of _ new])
    apply (rule exI [of _ tbl])
    apply (rule exI [of _ k'])
    using s1(1,5,6) s4(4,5,6) kk w st tr apply (intro conjI)
              apply assumption+
    done
qed

lemma load_telco_data_ok:
  assumes "load_telco_data P now fs p n c = (c', warnings, Inr k)"
  shows "\<exists>rows c1. fs p = Some rows \<and> \<not> aborted c \<and> temp_tables (working c) n = None
         \<and> c1 = c\<lparr>executed := executed c @ [CreateTempTable n],
                    working := (working c)\<lparr>temp_tables := (temp_tables (working c))(n \<mapsto> [])\<rparr>\<rparr>
         \<and> (if filter (\<lambda>r. length r = EXPECTED_CSV_COLUMNS) rows = [] then k = 0 \<and> c' = c1
             else \<exists>c2. load_staged P now n (filter (\<lambda>r. length r = EXPECTED_CSV_COLUMNS) rows) c1
                          = (c2, Inr k) \<and> c' = commit c2)"
proof -
  from assms obtain c1 r1 rows where e1: "execute P now (CreateTempTable n) c = (c1, Inr r1)"
      and f: "fs p = Some rows"
    by (auto simp: load_telco_data_def split: prod.splits sum.splits option.splits)
  from e1 have s1: "\<not> aborted c" "temp_tables (working c) n = None"
      "c1 = c\<lparr>executed := executed c @ [CreateTempTable n],
                working := (working c)\<lparr>temp_tables := (temp_tables (working c))(n \<mapsto> [])\<rparr>\<rparr>"
    by (auto simp: execute_ok split: if_splits)
  from assms e1 f
  have "if filter (\<lambda>r. length r = EXPECTED_CSV_COLUMNS) rows = [] then k = 0 \<and> c' = c1
        else \<exists>c2. load_staged P now n (filter (\<lambda>r. length r = EXPECTED_CSV_COLUMNS) rows) c1
                          = (c2, Inr k) \<and> c' = commit c2"
    by (auto simp: load_telco_data_def stage_csv_rows_eq split: prod.splits sum.splits if_splits)
  with f s1 show ?thesis by blast
qed


lemma standard_indexes_fixpoint:
  "\<forall>(name, col) \<in> set index_columns. m name = Some col \<Longrightarrow>
     (\<lambda>x. case map_of index_columns x of Some col \<Rightarrow> Some col | None \<Rightarrow> m x) = m"
  by (fastforce simp: fun_eq_iff split: option.splits dest: map_of_SomeD)

lemma commit_healthy:
  "\<not> aborted c \<Longrightarrow>
     working (commit c) = drop_temp (working c) \<and> committed (commit c) = drop_temp (working c)
     \<and> executed (commit c) = executed c \<and> \<not> aborted (commit c)"
  by (simp add: commit_def)

text \<open>
  Claim C4. Take a load that returns normally, started in a transaction that sees the
  four secondary indexes with their standard definitions (as
  \<open>setup_pipeline_db_structure\<close> leaves them). Afterwards the catalogue of secondary
  indexes is the one of before, name by name and definition by definition, whatever count
  the merge reported, zero included. When at least one row was accepted, that catalogue
  is committed, and the last statements sent are the merge followed by the four
  \<open>CREATE INDEX\<close> statements of \<open>NON_PK_INDEXES_TO_RECREATE\<close>: the recreate step runs
  after the merge without any condition on its result.
\<close>

theorem load_restores_indexes:
  "load_telco_data P now fs p n c = (c', warnings, Inr k)
   \<and> (\<forall>(name, col) \<in> set index_columns. indexes (working c) name = Some col) \<Longrightarrow>
     indexes (working c') = indexes (working c)
   \<and> (\<forall>(name, col) \<in> set index_columns. indexes (working c') name = Some col)
   \<and> (\<forall>rows. fs p = Some rows \<and> filter (\<lambda>r. length r = 9) rows \<noteq> [] \<longrightarrow>
         indexes (committed c') = indexes (working c)
         \<and> (\<exists>pre. executed c' =
               executed c @ pre @ [InsertFromStaging n] @ map snd NON_PK_INDEXES_TO_RECREATE))"
proof -
  assume a: "load_telco_data P now fs p n c = (c', warnings, Inr k)
   \<and> (\<forall>(name, col) \<in> set index_columns. indexes (working c) name = Some col)"
  then have std: "\<forall>(name, col) \<in> set index_columns. indexes (working c) name = Some col"
    by simp
  from a load_telco_data_ok [of P now fs p n c c' warnings k]
  obtain rows c1 where f: "fs p = Some rows"
    and c1: "c1 = c\<lparr>executed := executed c @ [CreateTempTable n],
                    working := (working c)\<lparr>temp_tables := (temp_tables (working c))(n \<mapsto> [])\<rparr>\<rparr>"
    and br: "if filter (\<lambda>r. length r = EXPECTED_CSV_COLUMNS) rows = [] then k = 0 \<and> c' = c1
             else \<exists>c2. load_staged P now n (filter (\<lambda>r. length r = EXPECTED_CSV_COLUMNS) rows) c1
                          = (c2, Inr k) \<and> c' = commit c2"
    by blast
  show ?thesis
  proof (cases "filter (\<lambda>r. length r = EXPECTED_CSV_COLUMNS) rows = []")
    case True
    with br c1 have "indexes (working c') = indexes (working c)" by simp
    with std True f show ?thesis
      by (simp add: EXPECTED_CSV_COLUMNS_def)
  next
    case False
    with br obtain c2 where
        ls: "load_staged P now n (filter (\<lambda>r. length r = EXPECTED_CSV_COLUMNS) rows) c1 = (c2, Inr k)"
      and c': "c' = commit c2"
      by auto
    from load_staged_ok [OF ls] obtain pre where
        w2: "indexes (working c2) =
               (\<lambda>x. case map_of index_columns x of Some col \<Rightarrow> Some col
                    | None \<Rightarrow> indexes (working c1) x)"
      and h2: "\<not> aborted c2"
      and t2: "executed c2 = executed c1 @ pre @ [InsertFromStaging n]
                 @ map snd NON_PK_INDEXES_TO_RECREATE"
      by auto
    have "indexes (working c1) = indexes (working c)"
      using c1 by simp
    with w2 standard_indexes_fixpoint [OF std] have i2: "indexes (working c2) = indexes (working c)"
      by (simp cong: option.case_cong)
    from commit_healthy [OF h2] c' i2
    have i': "indexes (working c') = indexes (working c)" "indexes (committed c') = indexes (working c)"
      by (simp_all add: drop_temp_def)
    from commit_healthy [OF h2] c' t2 c1
    have "executed c' = executed c @ (CreateTempTable n # pre) @ [InsertFromStaging n]
                 @ map snd NON_PK_INDEXES_TO_RECREATE"
      by simp
    then have "\<exists>pre. executed c' = executed c @ pre @ [InsertFromStaging n]
                 @ map snd NON_PK_INDEXES_TO_RECREATE"
      by blast
    with i' std show ?thesis by simp
  qed
qed

theorem load_restores_indexes_witness:
  "snd (load_telco_data sample_pg 0 [''in.csv'' \<mapsto> [sample_row, sms_csv_row]] ''in.csv''
          ''telco_staging_1'' (connect (sample_db [call_row, sms_row])))
     = ([], Inr 0)
   \<and> indexes (working (fst (load_telco_data sample_pg 0 [''in.csv'' \<mapsto> [sample_row, sms_csv_row]]
          ''in.csv'' ''telco_staging_1'' (connect (sample_db [call_row, sms_row])))))
     = indexes (sample_db [call_row, sms_row])
   \<and> indexes (committed (fst (load_telco_data sample_pg 0 [''in.csv'' \<mapsto> [sample_row, sms_csv_row]]
          ''in.csv'' ''telco_staging_1'' (connect (sample_db [call_row, sms_row])))))
     = indexes (sample_db [call_row, sms_row])"
proof -
  let ?fs = "[''in.csv'' \<mapsto> [sample_row, sms_csv_row]]"
  let ?c = "connect (sample_db [call_row, sms_row])"
  let ?run = "load_telco_data sample_pg 0 ?fs ''in.csv'' ''telco_staging_1'' ?c"
  have ev: "snd ?run = ([], Inr 0)"
    by code_simp
  then have run: "?run = (fst ?run, [], Inr 0)"
    by (metis prod.collapse)
  have w: "indexes (working ?c) = indexes (sample_db [call_row, sms_row])"
    by (simp add: connect_def drop_temp_def)
  have std: "\<forall>(name, col) \<in> set index_columns. indexes (working ?c) name = Some col"
    by (simp add: index_columns_def connect_def drop_temp_def sample_db_def)
  have f: "?fs ''in.csv'' = Some [sample_row, sms_csv_row]
           \<and> filter (\<lambda>r. length r = 9) [sample_row, sms_csv_row] \<noteq> []"
    by (simp add: sample_lengths)
  from load_restores_indexes [where P = sample_pg and now = 0 and fs = ?fs and p = "''in.csv''"
      and n = "''telco_staging_1''" and c = ?c and c' = "fst ?run" and warnings = "[]" and k = 0]
    run std f
  have "indexes (working (fst ?run)) = indexes (working ?c)
      \<and> indexes (committed (fst ?run)) = indexes (working ?c)"
    by blast
  with ev w show ?thesis by simp
qed

section \<open>The merge and the idempotence of the load\<close>

lemma business_tuple_with_uuid [simp]: "business_tuple (with_uuid s u) = business_tuple s"
  by (simp add: business_tuple_def with_uuid_def)

lemma event_uuid_with_uuid [simp]: "event_uuid (with_uuid s u) = u"
  by (simp add: with_uuid_def)

lemma row_uuid_with_uuid [simp]: "row_uuid P (with_uuid s u) = row_uuid P s"
  by (simp add: row_uuid_def with_uuid_def)

lemma row_uuid_business_tuple:
  "business_tuple s = business_tuple s' \<Longrightarrow> row_uuid P s = row_uuid P s'"
  by (simp add: business_tuple_def row_uuid_def)














lemma copy_rows_length: "copy_rows P rs = Some ss \<Longrightarrow> length ss = length rs"
  by (induction rs arbitrary: ss) (auto split: option.splits)

lemma prepared_usage [simp]: "prepared (drop_temp (d\<lparr>usage := tbl\<rparr>)) = prepared d"
  by (simp add: prepared_def drop_temp_def)




end
